theory Spec2Isabelle
  imports Main
begin

section \<open>Data model\<close>

text \<open>
  Python values that travel through the agent loop as JSON: tool arguments
  (\<^verbatim>\<open>content.input\<close>), tool descriptors (the dict literals of
  \<^verbatim>\<open>step_executor.py\<close> and \<^verbatim>\<open>host.py\<close>) and whatever \<^verbatim>\<open>json.loads\<close> returns.
  A dict is an association list in insertion order; a float keeps only what
  the code can observe of it (whether it is zero).
\<close>

datatype pyfloat = Finite int int | Infinite bool | NaN

datatype json =
    JNull
  | JBool bool
  | JInt int
  | JFloat pyfloat
  | JStr string
  | JArr "json list"
  | JObj "(string \<times> json) list"

text \<open>The exceptions the modelled code can raise; \<open>External\<close> is a failure raised
  inside an external collaborator (model provider, tool backend, registry).\<close>

datatype error =
    ValueError string
  | KeyError
  | TypeError
  | AttributeError
  | IndexError
  | UnboundLocalError
  | JSONDecodeError
  | External string

text \<open>Modelled from the spec: \<^verbatim>\<open>ModelProvider\<close> is declared in \<^verbatim>\<open>arcade_utils\<close>, which
  is not among the sources; the spec gives the enum \<open>{ANTHROPIC, OPENAI}\<close> "or
  equivalent future variants". \<open>OTHER\<close> stands for any further variant, the one
  the \<^verbatim>\<open>else: raise ValueError\<close> branches are written for.\<close>

datatype ModelProvider = ANTHROPIC | OPENAI | OTHER

section \<open>Python operations used by the code\<close>

text \<open>
  The standard library is not part of the repository, so \<^verbatim>\<open>json.loads\<close>,
  \<^verbatim>\<open>json.dumps\<close> and \<^verbatim>\<open>str()\<close> of a non-string value (as an f-string applies
  it) are parameters. \<open>json_loads\<close> returns \<open>None\<close> where Python raises
  \<^verbatim>\<open>JSONDecodeError\<close>.
\<close>

record pylib =
  json_loads :: "string \<Rightarrow> json option"
  json_dumps :: "json \<Rightarrow> string"
  py_str :: "json \<Rightarrow> string"

text \<open>\<^verbatim>\<open>f"{v}"\<close>: a string is interpolated as it is.\<close>

fun format_value :: "pylib \<Rightarrow> json \<Rightarrow> string" where
  "format_value lib (JStr s) = s"
| "format_value lib v = py_str lib v"

text \<open>Truth value of a Python object (\<^verbatim>\<open>if data\<close>, \<^verbatim>\<open>not extract_path\<close>).\<close>

fun float_is_zero :: "pyfloat \<Rightarrow> bool" where
  "float_is_zero (Finite m e) = (m = 0)"
| "float_is_zero _ = False"

fun truthy :: "json \<Rightarrow> bool" where
  "truthy JNull = False"
| "truthy (JBool b) = b"
| "truthy (JInt n) = (n \<noteq> 0)"
| "truthy (JFloat f) = (\<not> float_is_zero f)"
| "truthy (JStr s) = (s \<noteq> [])"
| "truthy (JArr xs) = (xs \<noteq> [])"
| "truthy (JObj kvs) = (kvs \<noteq> [])"

text \<open>\<^verbatim>\<open>s.startswith(p)\<close> and \<^verbatim>\<open>p in s\<close> on strings.\<close>

fun startswith :: "string \<Rightarrow> string \<Rightarrow> bool" where
  "startswith s [] = True"
| "startswith [] (p # ps) = False"
| "startswith (c # cs) (p # ps) = (c = p \<and> startswith cs ps)"

fun is_substring :: "string \<Rightarrow> string \<Rightarrow> bool" where
  "is_substring p [] = (p = [])"
| "is_substring p (c # cs) = (startswith (c # cs) p \<or> is_substring p cs)"

text \<open>\<^verbatim>\<open>s.split(sep)\<close> with a one-character separator: never an empty list.\<close>

fun split_on :: "char \<Rightarrow> string \<Rightarrow> string list" where
  "split_on sep [] = [[]]"
| "split_on sep (c # cs) =
     (if c = sep then [] # split_on sep cs
      else (case split_on sep cs of [] \<Rightarrow> [[c]] | p # ps \<Rightarrow> (c # p) # ps))"

text \<open>\<^verbatim>\<open>sep.join(xs)\<close>\<close>

fun join :: "string \<Rightarrow> string list \<Rightarrow> string" where
  "join sep [] = []"
| "join sep [x] = x"
| "join sep (x # y # ys) = x @ sep @ join sep (y # ys)"

text \<open>\<^verbatim>\<open>part in data\<close> for a string \<open>part\<close>: key membership on a dict, element
  membership on a list, substring test on a string, \<^verbatim>\<open>TypeError\<close> on anything
  else.\<close>

fun py_contains :: "string \<Rightarrow> json \<Rightarrow> error + bool" where
  "py_contains part (JObj kvs) = Inr (map_of kvs part \<noteq> None)"
| "py_contains part (JArr xs) = Inr (List.member xs (JStr part))"
| "py_contains part (JStr s) = Inr (is_substring part s)"
| "py_contains part _ = Inl TypeError"

text \<open>\<^verbatim>\<open>data[key]\<close> for a string \<open>key\<close>: only a dict can be indexed by a string.\<close>

fun py_getitem :: "json \<Rightarrow> string \<Rightarrow> error + json" where
  "py_getitem (JObj kvs) key = (case map_of kvs key of None \<Rightarrow> Inl KeyError | Some v \<Rightarrow> Inr v)"
| "py_getitem _ key = Inl TypeError"

text \<open>\<^verbatim>\<open>d.get(key, None)\<close>: only a dict has \<^verbatim>\<open>get\<close>.\<close>

fun py_get :: "json \<Rightarrow> string \<Rightarrow> error + json option" where
  "py_get (JObj kvs) key = Inr (map_of kvs key)"
| "py_get _ key = Inl AttributeError"

text \<open>Looking a JSON value up as the key of a dict whose keys are strings: a list
  or a dict is unhashable, any other non-string is hashable and absent.\<close>

fun dict_lookup :: "(string \<rightharpoonup> 'v) \<Rightarrow> json \<Rightarrow> error + 'v option" where
  "dict_lookup d (JStr k) = Inr (d k)"
| "dict_lookup d (JArr xs) = Inl TypeError"
| "dict_lookup d (JObj kvs) = Inl TypeError"
| "dict_lookup d _ = Inr None"

section \<open>Messages and tool results\<close>

text \<open>A content block of a model response. \<open>OtherBlock\<close> is a block whose
  \<^verbatim>\<open>type\<close> is neither \<^verbatim>\<open>text\<close> nor \<^verbatim>\<open>tool_use\<close>; both loops skip it.\<close>

datatype block =
    Text string
  | is_ToolUse: ToolUse string json string
  | OtherBlock string

text \<open>What the blocks before the first tool call leave behind: their text
  blocks in the assistant accumulator, their texts in the output buffer.\<close>

fun text_blocks :: "block list \<Rightarrow> block list" where
  "text_blocks [] = []"
| "text_blocks (Text t # bs) = Text t # text_blocks bs"
| "text_blocks (b # bs) = text_blocks bs"

fun texts :: "block list \<Rightarrow> string list" where
  "texts [] = []"
| "texts (Text t # bs) = t # texts bs"
| "texts (b # bs) = texts bs"

text \<open>What a tool call yields: a string, or the content list of an MCP
  \<^verbatim>\<open>CallToolResult\<close>.\<close>

datatype mcp_content = TextContent string | ImageContent string | EmbeddedResource string

datatype result_content = RStr string | RContent "mcp_content list"

fun truthy_result :: "result_content \<Rightarrow> bool" where
  "truthy_result (RStr s) = (s \<noteq> [])"
| "truthy_result (RContent cs) = (cs \<noteq> [])"

datatype role = User | Assistant

datatype message_content =
    Str string
  | Blocks "block list"
  | ToolResult string result_content

datatype message = Message role message_content

section \<open>Referencing an earlier tool result (host.py)\<close>

text \<open>The loop of \<^verbatim>\<open>_extract_reference_data\<close>: \<^verbatim>\<open>data = None; break\<close> on a missing
  part is the result \<open>JNull\<close>.\<close>

fun walk_path :: "json \<Rightarrow> string list \<Rightarrow> error + json" where
  "walk_path data [] = Inr data"
| "walk_path data (part # parts) =
     (case py_contains part data of
        Inl e \<Rightarrow> Inl e
      | Inr False \<Rightarrow> Inr JNull
      | Inr True \<Rightarrow>
          (case py_getitem data part of Inl e \<Rightarrow> Inl e | Inr d \<Rightarrow> walk_path d parts))"

text \<open>\<^verbatim>\<open>MCPHost._extract_reference_data\<close>. Only \<^verbatim>\<open>JSONDecodeError\<close> is caught;
  \<^verbatim>\<open>json.loads\<close> of a non-string raises \<^verbatim>\<open>TypeError\<close> and \<^verbatim>\<open>.split\<close> on a
  non-string raises \<^verbatim>\<open>AttributeError\<close>.\<close>

definition extract_reference_data ::
  "pylib \<Rightarrow> result_content \<Rightarrow> json option \<Rightarrow> error + result_content" where
  "extract_reference_data lib result_content extract_path =
     (if \<not> (case extract_path of None \<Rightarrow> False | Some p \<Rightarrow> truthy p) \<or> \<not> truthy_result result_content
      then Inr result_content
      else (case result_content of
              RContent cs \<Rightarrow> Inl TypeError
            | RStr s \<Rightarrow>
               (case json_loads lib s of
                  None \<Rightarrow> Inr (RStr ''Cannot extract path: result is not valid JSON'')
                | Some loaded \<Rightarrow>
                   (case extract_path of
                      Some (JStr path) \<Rightarrow>
                        (case walk_path loaded (split_on (CHR ''.'') path) of
                           Inl e \<Rightarrow> Inl e
                         | Inr data \<Rightarrow>
                             Inr (RStr (if truthy data then json_dumps lib data
                                        else ''Path not found in data'')))
                    | _ \<Rightarrow> Inl AttributeError))))"

text \<open>\<^verbatim>\<open>MCPHost._handle_reference_tool\<close>: returns the updated history and \<open>None\<close>
  as result content.\<close>

definition handle_reference_tool ::
  "pylib \<Rightarrow> string \<Rightarrow> json \<Rightarrow> block \<Rightarrow> block list \<Rightarrow> message list \<Rightarrow>
   (string \<rightharpoonup> result_content) \<Rightarrow> error + (message list \<times> result_content option)" where
  "handle_reference_tool lib tool_id tool_args content assistant_message_content messages
       tool_results_context =
     (case py_getitem tool_args ''tool_id'' of Inl e \<Rightarrow> Inl e | Inr referenced_tool_id \<Rightarrow>
     (case py_get tool_args ''extract_path'' of Inl e \<Rightarrow> Inl e | Inr extract_path \<Rightarrow>
     (case dict_lookup tool_results_context referenced_tool_id of Inl e \<Rightarrow> Inl e | Inr cached \<Rightarrow>
     (case (case cached of
              Some c \<Rightarrow> extract_reference_data lib c extract_path
            | None \<Rightarrow> Inr (RStr (''Error: No tool result found with ID '' @ [CHR 0x27]
                                   @ format_value lib referenced_tool_id @ [CHR 0x27])))
      of Inl e \<Rightarrow> Inl e
       | Inr result_content \<Rightarrow>
           Inr (messages @ [Message Assistant (Blocks (assistant_message_content @ [content])),
                            Message User (ToolResult tool_id result_content)],
                None)))))"

section \<open>Tool catalog of the step executor\<close>

definition reference_tool_description :: string where
  "reference_tool_description =
     ''Reference the output of a previously called tool from any of the prior steps.''"

definition reference_tool_id_description :: string where
  "reference_tool_id_description =
     ''The ID of the previously called tool. This is NOT the name of the tool, it is the ID of the tool call. ''"

definition previous_step_description :: string where
  "previous_step_description =
     ''Get the result from a previous step in the plan. Use this when you need to reference what was accomplished in an earlier step. This is the output from the execution agent, not from a tool call.''"

definition step_number_description :: string where
  "step_number_description =
     ''The step number (1-based) to get the result from. For example, use 1 for the first step, 2 for the second step, etc.''"

definition insufficient_context_description :: string where
  "insufficient_context_description =
     ''Signal that this step cannot be completed due to insufficient context or missing required information. Use this when you determine that you do not have enough information to proceed successfully with the current step. If in doubt, use this tool.''"

definition reason_description :: string where
  "reason_description =
     ''Explanation of what specific information or context is missing that prevents completing this step.''"

text \<open>\<^verbatim>\<open>StepExecutor._get_reference_tool\<close>\<close>

fun get_reference_tool :: "ModelProvider \<Rightarrow> error + json" where
  "get_reference_tool ANTHROPIC = Inr (JObj
     [(''name'', JStr ''reference_tool_output''),
      (''description'', JStr reference_tool_description),
      (''input_schema'', JObj
         [(''type'', JStr ''object''),
          (''properties'', JObj
             [(''tool_id'', JObj
                 [(''type'', JStr ''string''),
                  (''description'', JStr reference_tool_id_description)])]),
          (''required'', JArr [JStr ''tool_id''])])])"
| "get_reference_tool OPENAI = Inr (JObj
     [(''type'', JStr ''function''),
      (''function'', JObj
         [(''name'', JStr ''reference_tool_output''),
          (''description'', JStr reference_tool_description),
          (''parameters'', JObj
             [(''type'', JStr ''object''),
              (''properties'', JObj
                 [(''tool_id'', JObj
                     [(''type'', JStr ''string''),
                      (''description'', JStr reference_tool_id_description)])]),
              (''required'', JArr [JStr ''tool_id''])])])])"
| "get_reference_tool OTHER = Inl (ValueError ''Unsupported provider'')"

text \<open>\<^verbatim>\<open>StepExecutor._get_previous_step_tool\<close>\<close>

fun get_previous_step_tool :: "ModelProvider \<Rightarrow> error + json" where
  "get_previous_step_tool ANTHROPIC = Inr (JObj
     [(''name'', JStr ''get_previous_step_result''),
      (''description'', JStr previous_step_description),
      (''input_schema'', JObj
         [(''type'', JStr ''object''),
          (''properties'', JObj
             [(''step_number'', JObj
                 [(''type'', JStr ''integer''),
                  (''description'', JStr step_number_description),
                  (''minimum'', JInt 1)])]),
          (''required'', JArr [JStr ''step_number''])])])"
| "get_previous_step_tool OPENAI = Inr (JObj
     [(''type'', JStr ''function''),
      (''function'', JObj
         [(''name'', JStr ''get_previous_step_result''),
          (''description'', JStr previous_step_description),
          (''parameters'', JObj
             [(''type'', JStr ''object''),
              (''properties'', JObj
                 [(''step_number'', JObj
                     [(''type'', JStr ''integer''),
                      (''description'', JStr step_number_description),
                      (''minimum'', JInt 1)])]),
              (''required'', JArr [JStr ''step_number''])])])])"
| "get_previous_step_tool OTHER = Inl (ValueError ''Unsupported provider'')"

text \<open>\<^verbatim>\<open>StepExecutor._get_insufficient_context_tool\<close>\<close>

fun get_insufficient_context_tool :: "ModelProvider \<Rightarrow> error + json" where
  "get_insufficient_context_tool ANTHROPIC = Inr (JObj
     [(''name'', JStr ''signal_insufficient_context''),
      (''description'', JStr insufficient_context_description),
      (''input_schema'', JObj
         [(''type'', JStr ''object''),
          (''properties'', JObj
             [(''reason'', JObj
                 [(''type'', JStr ''string''),
                  (''description'', JStr reason_description)])]),
          (''required'', JArr [JStr ''reason''])])])"
| "get_insufficient_context_tool OPENAI = Inr (JObj
     [(''type'', JStr ''function''),
      (''function'', JObj
         [(''name'', JStr ''signal_insufficient_context''),
          (''description'', JStr insufficient_context_description),
          (''parameters'', JObj
             [(''type'', JStr ''object''),
              (''properties'', JObj
                 [(''reason'', JObj
                     [(''type'', JStr ''string''),
                      (''description'', JStr reason_description)])]),
              (''required'', JArr [JStr ''reason''])])])])"
| "get_insufficient_context_tool OTHER = Inl (ValueError ''Unsupported provider'')"

text \<open>
  \<^verbatim>\<open>StepExecutor.get_all_tools\<close>. The registry call \<^verbatim>\<open>get_toolkits_from_arcade\<close>
  lives in \<^verbatim>\<open>arcade_utils\<close> and talks to an external service, so it is a
  parameter: given the provider and \<^verbatim>\<open>self.enabled_toolkits\<close> it returns the
  backend tools or raises. The three control tools are built first, in the
  order of the source, so an unsupported provider raises before the registry
  is asked.
\<close>

type_synonym toolkit_registry = "ModelProvider \<Rightarrow> string list option \<Rightarrow> error + json list"

definition get_all_tools ::
  "toolkit_registry \<Rightarrow> string list option \<Rightarrow> ModelProvider \<Rightarrow> error + json list" where
  "get_all_tools get_toolkits_from_arcade enabled_toolkits provider =
     (case get_reference_tool provider of Inl e \<Rightarrow> Inl e | Inr reference_tool \<Rightarrow>
     (case get_previous_step_tool provider of Inl e \<Rightarrow> Inl e | Inr previous_step_tool \<Rightarrow>
     (case get_insufficient_context_tool provider of Inl e \<Rightarrow> Inl e | Inr insufficient_context_tool \<Rightarrow>
     (case get_toolkits_from_arcade provider enabled_toolkits of Inl e \<Rightarrow> Inl e | Inr arcade_tools \<Rightarrow>
        Inr ([reference_tool, previous_step_tool, insufficient_context_tool] @ arcade_tools)))))"

text \<open>The name a descriptor advertises: the top-level \<^verbatim>\<open>"name"\<close> in the
  Anthropic shape, \<^verbatim>\<open>"function"."name"\<close> in the OpenAI shape.\<close>

fun descriptor_name :: "ModelProvider \<Rightarrow> json \<Rightarrow> string option" where
  "descriptor_name ANTHROPIC (JObj kvs) =
     (case map_of kvs ''name'' of Some (JStr n) \<Rightarrow> Some n | _ \<Rightarrow> None)"
| "descriptor_name OPENAI (JObj kvs) =
     (case map_of kvs ''function'' of
        Some (JObj f) \<Rightarrow> (case map_of f ''name'' of Some (JStr n) \<Rightarrow> Some n | _ \<Rightarrow> None)
      | _ \<Rightarrow> None)"
| "descriptor_name _ _ = None"

section \<open>The step executor's agent loop (step_executor.py)\<close>

record StepExecutor =
  enabled_toolkits :: "string list option"
  se_system_prompt :: string
  se_user_context :: string

text \<open>Modelled from the spec: the \<^verbatim>\<open>State\<close> dict is declared in \<^verbatim>\<open>agent_types\<close>,
  which is not among the sources. Of its keys the loop reads \<^verbatim>\<open>"tools"\<close> and
  writes \<^verbatim>\<open>"tool_results"\<close> (call id to tool name and result); \<^verbatim>\<open>"current_plan"\<close>
  only names the telemetry observation and is left out. A key may be absent.\<close>

record State =
  tools :: "json list option"
  tool_results :: "(string \<rightharpoonup> string \<times> string) option"

text \<open>A provider response: Anthropic's content blocks, or OpenAI's choices, each
  a message with optional text and optional function calls whose arguments are
  still a JSON string.\<close>

record tool_call =
  tc_id :: string
  tc_name :: string
  tc_arguments :: string

record chat_message =
  msg_content :: "string option"
  msg_tool_calls :: "tool_call list option"

datatype response = AnthropicMessage "block list" | ChatCompletion "chat_message list"

text \<open>
  The collaborators of the loop that are not among the sources. Each takes the
  number of model calls made so far, so that an answer may differ from one
  round to the next.
  \<^item> \<open>create_message\<close> is \<^verbatim>\<open>LLMMessageCreator.create_message\<close> (provider, messages,
    available tools, system prompt).
  \<^item> \<open>process_tool_call\<close> is \<^verbatim>\<open>ToolProcessor.process_tool_call\<close> (tool name,
    arguments, call id, content block, assistant accumulator, messages, state,
    output buffer, user id, provider). It is handed \<^verbatim>\<open>state\<close> and \<^verbatim>\<open>final_text\<close> by
    reference, so besides the pair it returns the model takes back both.
  Telemetry arguments are left out.
\<close>

record step_env =
  py :: pylib
  get_toolkits_from_arcade :: toolkit_registry
  create_message ::
    "nat \<Rightarrow> ModelProvider \<Rightarrow> message list \<Rightarrow> json list \<Rightarrow> string \<Rightarrow> error + response"
  process_tool_call ::
    "nat \<Rightarrow> string \<Rightarrow> json \<Rightarrow> string \<Rightarrow> block \<Rightarrow> block list \<Rightarrow> message list \<Rightarrow> State \<Rightarrow>
     string list \<Rightarrow> string \<Rightarrow> ModelProvider \<Rightarrow>
     error + (message list \<times> string option \<times> string list \<times> State)"

text \<open>Lines 243 to 259: the content blocks of a response. For OpenAI every
  function call's arguments go through \<^verbatim>\<open>json.loads\<close> here, before any block is
  looked at. For another provider \<^verbatim>\<open>response_contents\<close> is never assigned.\<close>

fun convert_tool_calls :: "pylib \<Rightarrow> tool_call list \<Rightarrow> error + block list" where
  "convert_tool_calls lib [] = Inr []"
| "convert_tool_calls lib (tc # tcs) =
     (case json_loads lib (tc_arguments tc) of
        None \<Rightarrow> Inl JSONDecodeError
      | Some args \<Rightarrow>
          (case convert_tool_calls lib tcs of
             Inl e \<Rightarrow> Inl e
           | Inr bs \<Rightarrow> Inr (ToolUse (tc_name tc) args (tc_id tc) # bs)))"

fun response_contents :: "pylib \<Rightarrow> ModelProvider \<Rightarrow> response \<Rightarrow> error + block list" where
  "response_contents lib ANTHROPIC (AnthropicMessage content) = Inr content"
| "response_contents lib ANTHROPIC (ChatCompletion choices) = Inl AttributeError"
| "response_contents lib OPENAI (AnthropicMessage content) = Inl AttributeError"
| "response_contents lib OPENAI (ChatCompletion []) = Inl IndexError"
| "response_contents lib OPENAI (ChatCompletion (message # choices)) =
     (case convert_tool_calls lib (case msg_tool_calls message of None \<Rightarrow> [] | Some tcs \<Rightarrow> tcs) of
        Inl e \<Rightarrow> Inl e
      | Inr calls \<Rightarrow>
          Inr ((case msg_content message of
                  None \<Rightarrow> []
                | Some text \<Rightarrow> (if text \<noteq> [] then [Text text] else [])) @ calls))"
| "response_contents lib OTHER r = Inl UnboundLocalError"

text \<open>The local variables of \<^verbatim>\<open>process_input_with_agent_loop\<close> that live across
  rounds, the state dict, what was printed, and the number of model calls made
  so far (which the code does not keep: it is the index handed to the
  collaborators and lets a theorem say that no model call follows).\<close>

record loop_state =
  se_messages :: "message list"
  se_response :: response
  se_final_text :: "string list"
  se_state :: State
  se_i :: int
  se_model_calls :: nat
  se_stdout :: "string list"

record loop_config =
  provider :: ModelProvider
  user_id :: string
  available_tools :: "json list"
  current_system_prompt :: string
  max_iterations :: int

text \<open>How one pass over a response ends: an exception, the early \<^verbatim>\<open>return\<close>, the
  end of the blocks with \<^verbatim>\<open>has_tool_calls\<close> still false, or the \<^verbatim>\<open>break\<close> after a
  tool call.\<close>

datatype 's outcome = Raised error | Returned 's | NoToolCalls 's | ToolCalled 's

definition INSUFFICIENT_CONTEXT :: string where
  "INSUFFICIENT_CONTEXT = ''STEP_FAILED_INSUFFICIENT_CONTEXT''"

text \<open>Lines 308 to 313: the write to the call-result cache.\<close>

definition memoize :: "string \<Rightarrow> string \<Rightarrow> string option \<Rightarrow> State \<Rightarrow> error + State" where
  "memoize tool_name tool_id result_content state =
     (case result_content of
        None \<Rightarrow> Inr state
      | Some rc \<Rightarrow>
          (if rc \<noteq> [] \<and> tool_name \<noteq> ''get_previous_step_result''
                \<and> tool_name \<noteq> ''reference_tool_output''
           then (case tool_results state of
                   None \<Rightarrow> Inl KeyError
                 | Some cache \<Rightarrow>
                     Inr (state\<lparr>tool_results := Some (cache(tool_id \<mapsto> (tool_name, rc)))\<rparr>))
           else Inr state))"

text \<open>Lines 272 to 328: the body of the \<^verbatim>\<open>tool_use\<close> branch. \<open>dispatch\<close> is the
  call of the tool processor and the test for the early \<^verbatim>\<open>return\<close>; \<open>next_response\<close>
  is what follows it: the cache write, the next model call and the \<^verbatim>\<open>break\<close>.\<close>

definition next_response ::
  "step_env \<Rightarrow> loop_config \<Rightarrow> loop_state \<Rightarrow> string \<Rightarrow> string \<Rightarrow>
   message list \<Rightarrow> string option \<Rightarrow> string list \<Rightarrow> State \<Rightarrow> loop_state outcome" where
  "next_response env cfg st tool_name tool_id updated_messages result_content final_text' state' =
     (case memoize tool_name tool_id result_content state' of
        Inl e \<Rightarrow> Raised e
      | Inr state'' \<Rightarrow>
          (case create_message env (se_model_calls st) (provider cfg) updated_messages
                  (available_tools cfg) (current_system_prompt cfg) of
             Inl e \<Rightarrow> Raised e
           | Inr r \<Rightarrow>
               ToolCalled (st\<lparr>se_messages := updated_messages,
                               se_response := r,
                               se_final_text := final_text',
                               se_state := state'',
                               se_model_calls := se_model_calls st + 1\<rparr>)))"

definition dispatch ::
  "step_env \<Rightarrow> loop_config \<Rightarrow> loop_state \<Rightarrow> block list \<Rightarrow> string list \<Rightarrow>
   string \<Rightarrow> json \<Rightarrow> string \<Rightarrow> loop_state outcome" where
  "dispatch env cfg st assistant_message_content final_text tool_name tool_args tool_id =
     (case process_tool_call env (se_model_calls st) tool_name tool_args tool_id
             (ToolUse tool_name tool_args tool_id) assistant_message_content
             (se_messages st) (se_state st) final_text (user_id cfg) (provider cfg) of
        Inl e \<Rightarrow> Raised e
      | Inr (updated_messages, result_content, final_text', state') \<Rightarrow>
          (case result_content of
             None \<Rightarrow>
               next_response env cfg st tool_name tool_id updated_messages None final_text' state'
           | Some rc \<Rightarrow>
               (if rc \<noteq> [] \<and> startswith rc INSUFFICIENT_CONTEXT
                then Returned (st\<lparr>se_final_text := final_text' @ [rc], se_state := state'\<rparr>)
                else next_response env cfg st tool_name tool_id updated_messages (Some rc)
                       final_text' state')))"

text \<open>Lines 261 to 328: the \<^verbatim>\<open>for content in response_contents\<close> loop, with the
  assistant accumulator and the output buffer as it goes.\<close>

fun scan_contents ::
  "step_env \<Rightarrow> loop_config \<Rightarrow> loop_state \<Rightarrow> block list \<Rightarrow> string list \<Rightarrow> block list \<Rightarrow>
   loop_state outcome" where
  "scan_contents env cfg st acc final_text [] = NoToolCalls (st\<lparr>se_final_text := final_text\<rparr>)"
| "scan_contents env cfg st acc final_text (Text t # rest) =
     scan_contents env cfg st (acc @ [Text t]) (final_text @ [t]) rest"
| "scan_contents env cfg st acc final_text (ToolUse tool_name tool_args tool_id # rest) =
     dispatch env cfg st acc final_text tool_name tool_args tool_id"
| "scan_contents env cfg st acc final_text (OtherBlock ty # rest) =
     scan_contents env cfg st acc final_text rest"

text \<open>One pass of the \<^verbatim>\<open>while\<close> body up to the test of \<^verbatim>\<open>has_tool_calls\<close>.\<close>

definition round :: "step_env \<Rightarrow> loop_config \<Rightarrow> loop_state \<Rightarrow> loop_state outcome" where
  "round env cfg st =
     (case response_contents (py env) (provider cfg) (se_response st) of
        Inl e \<Rightarrow> Raised e
      | Inr blocks \<Rightarrow> scan_contents env cfg st [] (se_final_text st) blocks)"

definition max_iterations_warning :: "pylib \<Rightarrow> int \<Rightarrow> string" where
  "max_iterations_warning l n =
     ''WARNING:Max iterations reached: '' @ py_str l (JInt n) @ ''.\<newline>Exiting loop.''"

text \<open>Lines 334 to 338, after a round with a tool call: \<^verbatim>\<open>i += 1\<close>, and the
  warning when the cap is reached. The round itself does not touch \<^verbatim>\<open>i\<close>, so
  the new value is taken from the state \<open>st\<close> the round started in.\<close>

definition counted :: "step_env \<Rightarrow> loop_config \<Rightarrow> loop_state \<Rightarrow> loop_state \<Rightarrow> loop_state" where
  "counted env cfg st st' =
     st'\<lparr>se_i := se_i st + 1,
         se_stdout :=
           (if se_i st + 1 = max_iterations cfg
            then se_stdout st' @ [max_iterations_warning (py env) (max_iterations cfg)]
            else se_stdout st')\<rparr>"

text \<open>Lines 238 to 340: \<^verbatim>\<open>while True and i < max_iterations\<close>. The function
  returns \<^verbatim>\<open>final_text\<close>, here the \<open>se_final_text\<close> of the state returned.\<close>

function agent_loop :: "step_env \<Rightarrow> loop_config \<Rightarrow> loop_state \<Rightarrow> error + loop_state" where
  "agent_loop env cfg st =
     (if se_i st < max_iterations cfg
      then (case round env cfg st of
              Raised e \<Rightarrow> Inl e
            | Returned st' \<Rightarrow> Inr st'
            | NoToolCalls st' \<Rightarrow> Inr st'
            | ToolCalled st' \<Rightarrow> agent_loop env cfg (counted env cfg st st'))
      else Inr st)"
  by pat_completeness auto
termination
  by (relation "measure (\<lambda>(env, cfg, st). nat (max_iterations cfg - se_i st))")
     (auto simp: counted_def)

text \<open>\<^verbatim>\<open>StepExecutor.process_input_with_agent_loop\<close>. With \<^verbatim>\<open>state=None\<close> the test
  \<^verbatim>\<open>"tools" in state\<close> raises \<^verbatim>\<open>TypeError\<close>.\<close>

definition process_input_with_agent_loop ::
  "step_env \<Rightarrow> StepExecutor \<Rightarrow> string \<Rightarrow> ModelProvider \<Rightarrow> string \<Rightarrow> string option \<Rightarrow>
   State option \<Rightarrow> int \<Rightarrow> error + loop_state" where
  "process_input_with_agent_loop env self input_action prov uid system_prompt state max_iter =
     (let sys = (case system_prompt of None \<Rightarrow> se_system_prompt self | Some p \<Rightarrow> p);
          input_action' =
            (if se_user_context self \<noteq> []
             then input_action @ ''\<newline>\<newline>USER CONTEXT:\<newline>'' @ se_user_context self
             else input_action);
          msgs = [Message User (Str input_action')]
      in (case state of
            None \<Rightarrow> Inl TypeError
          | Some state0 \<Rightarrow>
             (case (case tools state0 of
                      None \<Rightarrow> get_all_tools (get_toolkits_from_arcade env) (enabled_toolkits self) prov
                    | Some ts \<Rightarrow>
                        (if ts \<noteq> [] then Inr ts
                         else get_all_tools (get_toolkits_from_arcade env) (enabled_toolkits self) prov))
              of Inl e \<Rightarrow> Inl e
               | Inr catalog \<Rightarrow>
                  (case create_message env 0 prov msgs catalog sys of
                     Inl e \<Rightarrow> Inl e
                   | Inr r \<Rightarrow>
                       agent_loop env
                         \<lparr>provider = prov, user_id = uid, available_tools = catalog,
                          current_system_prompt = sys, max_iterations = max_iter\<rparr>
                         \<lparr>se_messages = msgs, se_response = r, se_final_text = [],
                          se_state = state0, se_i = 0, se_model_calls = 1, se_stdout = []\<rparr>))))"

section \<open>The MCP host's agent loop (host.py)\<close>

text \<open>\<^verbatim>\<open>mcp.types.Tool\<close> as \<^verbatim>\<open>get_all_tools\<close> reads it.\<close>

record Tool =
  tool_name :: string
  tool_description :: json
  inputSchema :: json

text \<open>The fields of \<^verbatim>\<open>MCPHost\<close> the loop uses: the names of the enabled clients
  in the order of \<^verbatim>\<open>self.mcp_clients\<close>, the system prompt, and the map from tool
  name to client name.\<close>

record MCPHost =
  mcp_clients :: "string list"
  host_system_prompt :: string
  tool_to_client_map :: "string \<rightharpoonup> string"

definition resource_access_tool :: json where
  "resource_access_tool = JObj
     [(''name'', JStr ''access_resource''),
      (''description'', JStr ''Access a resource from the MCP server''),
      (''input_schema'', JObj
         [(''type'', JStr ''object''),
          (''properties'', JObj
             [(''uri'', JObj
                 [(''type'', JStr ''string''),
                  (''description'', JStr ''The URI of the resource to access'')]),
              (''client'', JObj
                 [(''type'', JStr ''string''),
                  (''description'', JStr ''The name of the client to access the resource'')])]),
          (''required'', JArr [JStr ''uri'', JStr ''client''])])]"

definition reference_tool_output :: json where
  "reference_tool_output = JObj
     [(''name'', JStr ''reference_tool_output''),
      (''description'', JStr ''Reference the output of a previously called tool''),
      (''input_schema'', JObj
         [(''type'', JStr ''object''),
          (''properties'', JObj
             [(''tool_id'', JObj
                 [(''type'', JStr ''string''),
                  (''description'', JStr ''The ID of the previously called tool'')]),
              (''extract_path'', JObj
                 [(''type'', JStr ''string''),
                  (''description'',
                   JStr ''Optional JSON path to extract specific data from the tool result'')])]),
          (''required'', JArr [JStr ''tool_id''])])]"

datatype resource_contents =
    TextResourceContents string
  | BlobResourceContents string
  | OtherResourceContents

text \<open>
  The host's external collaborators; those called inside the loop take the
  number of model calls made so far.
  \<^item> \<open>list_tools\<close>: \<^verbatim>\<open>client.session.list_tools().tools\<close> of a client.
  \<^item> \<open>get_all_resources_info\<close>: the resource listing \<^verbatim>\<open>_prepare_query\<close> appends.
  \<^item> \<open>messages_create\<close>: \<^verbatim>\<open>self.anthropic.messages.create\<close> (messages, tools,
    system prompt), giving \<^verbatim>\<open>response.content\<close>.
  \<^item> \<open>call_tool\<close>: \<^verbatim>\<open>client.session.call_tool\<close> (client, tool name, arguments),
    giving \<^verbatim>\<open>result.content\<close>.
  \<^item> \<open>read_resource\<close>: \<^verbatim>\<open>client.session.read_resource\<close> (client, uri), giving
    \<^verbatim>\<open>resource_result.contents\<close>.
\<close>

record host_env =
  host_py :: pylib
  list_tools :: "string \<Rightarrow> error + Tool list"
  get_all_resources_info :: "error + string"
  messages_create :: "nat \<Rightarrow> message list \<Rightarrow> json list \<Rightarrow> string \<Rightarrow> error + block list"
  call_tool :: "nat \<Rightarrow> string \<Rightarrow> string \<Rightarrow> json \<Rightarrow> error + result_content"
  read_resource :: "nat \<Rightarrow> string \<Rightarrow> json \<Rightarrow> error + resource_contents list"

text \<open>\<^verbatim>\<open>MCPHost.get_all_tools_from_servers\<close>: a later client's tool overwrites the
  map entry of an earlier tool of the same name.\<close>

fun collect_tools ::
  "host_env \<Rightarrow> string list \<Rightarrow> Tool list \<Rightarrow> (string \<rightharpoonup> string) \<Rightarrow>
   error + (Tool list \<times> (string \<rightharpoonup> string))" where
  "collect_tools env [] found m = Inr (found, m)"
| "collect_tools env (client_name # clients) found m =
     (case list_tools env client_name of
        Inl e \<Rightarrow> Inl e
      | Inr ts \<Rightarrow>
          collect_tools env clients (found @ ts)
            (fold (\<lambda>t m'. m'(tool_name t \<mapsto> client_name)) ts m))"

definition get_all_tools_from_servers ::
  "host_env \<Rightarrow> MCPHost \<Rightarrow> error + (Tool list \<times> (string \<rightharpoonup> string) \<times> MCPHost)" where
  "get_all_tools_from_servers env self =
     (case collect_tools env (mcp_clients self) [] Map.empty of
        Inl e \<Rightarrow> Inl e
      | Inr (found, m) \<Rightarrow> Inr (found, m, self\<lparr>tool_to_client_map := m\<rparr>))"

text \<open>\<^verbatim>\<open>MCPHost.get_all_tools\<close>: here the two built-in tools come last.\<close>

definition host_get_all_tools :: "host_env \<Rightarrow> MCPHost \<Rightarrow> error + (json list \<times> MCPHost)" where
  "host_get_all_tools env self =
     (case get_all_tools_from_servers env self of
        Inl e \<Rightarrow> Inl e
      | Inr (found, m, self') \<Rightarrow>
          Inr (map (\<lambda>t. JObj [(''name'', JStr (tool_name t)),
                               (''description'', tool_description t),
                               (''input_schema'', inputSchema t)]) found
               @ [resource_access_tool, reference_tool_output], self'))"

text \<open>\<^verbatim>\<open>MCPHost._format_resource_content\<close>\<close>

fun resource_texts :: "resource_contents list \<Rightarrow> string list" where
  "resource_texts [] = []"
| "resource_texts (TextResourceContents t # rs) = t # resource_texts rs"
| "resource_texts (BlobResourceContents b # rs) = b # resource_texts rs"
| "resource_texts (OtherResourceContents # rs) = resource_texts rs"

definition format_resource_content :: "resource_contents list \<Rightarrow> string" where
  "format_resource_content contents = join ''\<newline>'' (resource_texts contents)"

text \<open>What a handler hands back: the updated history, the result content (or
  \<open>None\<close>), the output buffer and the console output.\<close>

type_synonym handled = "message list \<times> result_content option \<times> string list \<times> string list"

text \<open>\<^verbatim>\<open>MCPHost._handle_resource_access\<close>\<close>

definition handle_resource_access ::
  "host_env \<Rightarrow> nat \<Rightarrow> MCPHost \<Rightarrow> string \<Rightarrow> json \<Rightarrow> block \<Rightarrow> block list \<Rightarrow> message list \<Rightarrow>
   string list \<Rightarrow> string list \<Rightarrow> error + handled" where
  "handle_resource_access env n self tool_id tool_args content assistant_message_content messages
       final_text out =
     (case py_getitem tool_args ''uri'' of Inl e \<Rightarrow> Inl e | Inr uri \<Rightarrow>
     (case py_getitem tool_args ''client'' of Inl e \<Rightarrow> Inl e | Inr client_name \<Rightarrow>
     (case dict_lookup (\<lambda>c. if List.member (mcp_clients self) c then Some c else None) client_name of
        Inl e \<Rightarrow> Inl e
      | Inr None \<Rightarrow> Inl KeyError
      | Inr (Some client) \<Rightarrow>
         (case read_resource env n client uri of
            Inl e \<Rightarrow> Inl e
          | Inr contents \<Rightarrow>
              Inr (messages @ [Message Assistant (Blocks (assistant_message_content @ [content])),
                               Message User (ToolResult tool_id
                                 (RStr (format_resource_content contents)))],
                   Some (RStr (format_resource_content contents)),
                   final_text @ [''[Accessing resource '' @ format_value (host_py env) uri @ '']''],
                   out)))))"

text \<open>\<^verbatim>\<open>MCPHost._handle_standard_tool\<close>. For a name that is not in the map,
  \<^verbatim>\<open>error_message\<close> goes to the console and the output buffer and a second
  message becomes the tool result.\<close>

definition tool_not_found_message :: "string \<Rightarrow> string" where
  "tool_not_found_message name =
     ''Error: Tool '' @ [CHR 0x27] @ name @ [CHR 0x27] @ '' not found in any client''"

definition tool_not_available_message :: "string \<Rightarrow> string" where
  "tool_not_available_message name =
     ''Error: Tool '' @ [CHR 0x27] @ name @ [CHR 0x27] @ '' is not available.''"

definition handle_standard_tool ::
  "host_env \<Rightarrow> nat \<Rightarrow> MCPHost \<Rightarrow> string \<Rightarrow> json \<Rightarrow> string \<Rightarrow> block \<Rightarrow> block list \<Rightarrow>
   message list \<Rightarrow> string list \<Rightarrow> string list \<Rightarrow> error + handled" where
  "handle_standard_tool env n self name tool_args tool_id content assistant_message_content
       messages final_text out =
     (case (case tool_to_client_map self name of
              Some client_name \<Rightarrow>
                (if List.member (mcp_clients self) client_name
                 then (case call_tool env n client_name name tool_args of
                         Inl e \<Rightarrow> Inl e
                       | Inr result \<Rightarrow>
                           Inr (result,
                                final_text @ [''[Calling tool '' @ name @ '' with args ''
                                   @ format_value (host_py env) tool_args
                                   @ '' via client '' @ client_name @ '']''],
                                out @ [''Calling tool '' @ name @ '' with args ''
                                   @ format_value (host_py env) tool_args
                                   @ '' via client '' @ client_name]))
                 else Inl KeyError)
            | None \<Rightarrow>
                Inr (RStr (tool_not_available_message name),
                     final_text @ [tool_not_found_message name],
                     out @ [tool_not_found_message name]))
      of Inl e \<Rightarrow> Inl e
       | Inr (result_content, final_text', out') \<Rightarrow>
           Inr (messages @ [Message Assistant (Blocks (assistant_message_content @ [content])),
                            Message User (ToolResult tool_id result_content)],
                Some result_content, final_text', out'))"

text \<open>\<^verbatim>\<open>MCPHost._process_tool_call\<close>\<close>

definition host_process_tool_call ::
  "host_env \<Rightarrow> nat \<Rightarrow> MCPHost \<Rightarrow> string \<Rightarrow> json \<Rightarrow> string \<Rightarrow> block \<Rightarrow> block list \<Rightarrow>
   message list \<Rightarrow> (string \<rightharpoonup> result_content) \<Rightarrow> string list \<Rightarrow> string list \<Rightarrow>
   error + handled" where
  "host_process_tool_call env n self name tool_args tool_id content assistant_message_content
       messages tool_results_context final_text out =
     (if name = ''reference_tool_output''
      then (case handle_reference_tool (host_py env) tool_id tool_args content
                   assistant_message_content messages tool_results_context of
              Inl e \<Rightarrow> Inl e
            | Inr (updated_messages, result_content) \<Rightarrow>
                Inr (updated_messages, result_content, final_text, out))
      else if name = ''access_resource''
      then handle_resource_access env n self tool_id tool_args content assistant_message_content
             messages final_text out
      else handle_standard_tool env n self name tool_args tool_id content
             assistant_message_content messages final_text out)"

record host_loop_state =
  h_messages :: "message list"
  h_response :: "block list"
  h_final_text :: "string list"
  h_tool_results_context :: "string \<rightharpoonup> result_content"
  h_model_calls :: nat
  h_stdout :: "string list"

record host_config =
  h_self :: MCPHost
  h_available_tools :: "json list"
  h_current_system_prompt :: string

text \<open>Lines 272 to 304: the body of the \<^verbatim>\<open>tool_use\<close> branch, ending in \<^verbatim>\<open>break\<close>.\<close>

definition host_dispatch ::
  "host_env \<Rightarrow> host_config \<Rightarrow> host_loop_state \<Rightarrow> block list \<Rightarrow> string list \<Rightarrow>
   string \<Rightarrow> json \<Rightarrow> string \<Rightarrow> host_loop_state outcome" where
  "host_dispatch env cfg st assistant_message_content final_text name tool_args tool_id =
     (case host_process_tool_call env (h_model_calls st) (h_self cfg) name tool_args tool_id
             (ToolUse name tool_args tool_id) assistant_message_content (h_messages st)
             (h_tool_results_context st) final_text (h_stdout st) of
        Inl e \<Rightarrow> Raised e
      | Inr (updated_messages, result_content, final_text', out') \<Rightarrow>
          (case messages_create env (h_model_calls st) updated_messages (h_available_tools cfg)
                  (h_current_system_prompt cfg) of
             Inl e \<Rightarrow> Raised e
           | Inr r \<Rightarrow>
               ToolCalled (st\<lparr>h_messages := updated_messages,
                               h_response := r,
                               h_final_text := final_text',
                               h_tool_results_context :=
                                 (case result_content of
                                    None \<Rightarrow> h_tool_results_context st
                                  | Some rc \<Rightarrow>
                                      (if truthy_result rc
                                       then (h_tool_results_context st)(tool_id \<mapsto> rc)
                                       else h_tool_results_context st)),
                               h_model_calls := h_model_calls st + 1,
                               h_stdout := out'\<rparr>)))"

text \<open>Lines 267 to 304: the \<^verbatim>\<open>for content in response.content\<close> loop.\<close>

fun host_scan_contents ::
  "host_env \<Rightarrow> host_config \<Rightarrow> host_loop_state \<Rightarrow> block list \<Rightarrow> string list \<Rightarrow> block list \<Rightarrow>
   host_loop_state outcome" where
  "host_scan_contents env cfg st acc final_text [] = NoToolCalls (st\<lparr>h_final_text := final_text\<rparr>)"
| "host_scan_contents env cfg st acc final_text (Text t # rest) =
     host_scan_contents env cfg st (acc @ [Text t]) (final_text @ [t]) rest"
| "host_scan_contents env cfg st acc final_text (ToolUse name tool_args tool_id # rest) =
     host_dispatch env cfg st acc final_text name tool_args tool_id"
| "host_scan_contents env cfg st acc final_text (OtherBlock ty # rest) =
     host_scan_contents env cfg st acc final_text rest"

text \<open>One pass of the \<^verbatim>\<open>while True\<close> body. Without a tool call the first block of
  the response, when it is text, is appended once more before the \<^verbatim>\<open>break\<close>.\<close>

definition host_round :: "host_env \<Rightarrow> host_config \<Rightarrow> host_loop_state \<Rightarrow> host_loop_state outcome" where
  "host_round env cfg st =
     (case host_scan_contents env cfg st [] (h_final_text st) (h_response st) of
        NoToolCalls st' \<Rightarrow>
          NoToolCalls
            (case h_response st of
               Text t # rest \<Rightarrow> st'\<lparr>h_final_text := h_final_text st' @ [t]\<rparr>
             | _ \<Rightarrow> st')
      | other \<Rightarrow> other)"

text \<open>Lines 263 to 310: \<^verbatim>\<open>while True\<close>, which has no bound; \<open>None\<close> is a run that
  never leaves the loop.\<close>

partial_function (option) host_agent_loop ::
  "host_env \<Rightarrow> host_config \<Rightarrow> host_loop_state \<Rightarrow> (error + host_loop_state) option" where
  "host_agent_loop env cfg st =
     (case host_round env cfg st of
        Raised e \<Rightarrow> Some (Inl e)
      | Returned st' \<Rightarrow> Some (Inr st')
      | NoToolCalls st' \<Rightarrow> Some (Inr st')
      | ToolCalled st' \<Rightarrow> host_agent_loop env cfg st')"

text \<open>The caller's state dict of \<^verbatim>\<open>host.py\<close>, of which only \<^verbatim>\<open>"tool_results"\<close> is
  touched: call id to result content.\<close>

record host_State =
  h_tool_results :: "(string \<rightharpoonup> result_content) option"

text \<open>\<^verbatim>\<open>MCPHost.process_input_with_agent_loop\<close>: the joined output, the caller's
  state after \<^verbatim>\<open>update\<close>, and the final loop state.\<close>

definition host_process_input_with_agent_loop ::
  "host_env \<Rightarrow> MCPHost \<Rightarrow> string \<Rightarrow> string option \<Rightarrow> host_State option \<Rightarrow>
   (error + (string \<times> host_State option \<times> host_loop_state)) option" where
  "host_process_input_with_agent_loop env self query system_prompt state =
     (let sys = (case system_prompt of None \<Rightarrow> host_system_prompt self | Some p \<Rightarrow> p)
      in (case get_all_resources_info env of Inl e \<Rightarrow> Some (Inl e) | Inr resources_info \<Rightarrow>
         (case get_all_tools_from_servers env self of Inl e \<Rightarrow> Some (Inl e) | Inr (found, m, self1) \<Rightarrow>
         (case host_get_all_tools env self1 of Inl e \<Rightarrow> Some (Inl e) | Inr (catalog, self2) \<Rightarrow>
         (case messages_create env 0
                 [Message User (Str (query @ ''\<newline>\<newline>'' @ resources_info))] catalog sys of
            Inl e \<Rightarrow> Some (Inl e)
          | Inr r \<Rightarrow>
             (case host_agent_loop env
                     \<lparr>h_self = self2, h_available_tools = catalog, h_current_system_prompt = sys\<rparr>
                     \<lparr>h_messages = [Message User (Str (query @ ''\<newline>\<newline>'' @ resources_info))],
                      h_response = r, h_final_text = [], h_tool_results_context = Map.empty,
                      h_model_calls = 1, h_stdout = []\<rparr> of
                None \<Rightarrow> None
              | Some (Inl e) \<Rightarrow> Some (Inl e)
              | Some (Inr st) \<Rightarrow>
                  Some (Inr (join ''\<newline>'' (h_final_text st),
                             (case state of
                                None \<Rightarrow> None
                              | Some s \<Rightarrow>
                                  (case h_tool_results s of
                                     None \<Rightarrow> Some s
                                   | Some old \<Rightarrow>
                                       Some (s\<lparr>h_tool_results :=
                                                 Some (old ++ h_tool_results_context st)\<rparr>))),
                             st))))))))"

section \<open>Notions used to state the properties\<close>

text \<open>The entry of the step executor's call-result cache under a call id.\<close>

definition cached :: "State \<Rightarrow> string \<Rightarrow> (string \<times> string) option" where
  "cached s k = (case tool_results s of None \<Rightarrow> None | Some cache \<Rightarrow> cache k)"

definition cached_after :: "error + loop_state \<Rightarrow> string \<Rightarrow> (string \<times> string) option" where
  "cached_after r k = (case r of Inl e \<Rightarrow> None | Inr st \<Rightarrow> cached (se_state st) k)"

text \<open>The loop state at the start of round \<open>k + 1\<close> of an invocation, when its
  first \<open>k\<close> rounds each completed a tool call below the cap.\<close>

fun after_rounds :: "step_env \<Rightarrow> loop_config \<Rightarrow> nat \<Rightarrow> loop_state \<Rightarrow> loop_state option" where
  "after_rounds env cfg 0 st = Some st"
| "after_rounds env cfg (Suc k) st =
     (if se_i st < max_iterations cfg
      then (case round env cfg st of
              ToolCalled st' \<Rightarrow> after_rounds env cfg k (counted env cfg st st')
            | other \<Rightarrow> None)
      else None)"

text \<open>The loop state an outcome carries, if any.\<close>

definition state_after :: "'s outcome \<Rightarrow> 's option" where
  "state_after out =
     (case out of Raised e \<Rightarrow> None | Returned s \<Rightarrow> Some s | NoToolCalls s \<Rightarrow> Some s
      | ToolCalled s \<Rightarrow> Some s)"

text \<open>A path is present in a document when every part is a key of the dict
  reached so far; \<open>resolve\<close> gives the value it leads to. This is presence of
  the path, whatever the value is.\<close>

fun resolve :: "json \<Rightarrow> string list \<Rightarrow> json option" where
  "resolve d [] = Some d"
| "resolve (JObj kvs) (p # ps) = (case map_of kvs p of None \<Rightarrow> None | Some v \<Rightarrow> resolve v ps)"
| "resolve d (p # ps) = None"

section \<open>Sample collaborators\<close>

text \<open>Concrete collaborators for running the model. The library stand-in is a
  table of the few documents and values the sample runs meet.\<close>

definition sample_loads :: "string \<Rightarrow> json option" where
  \<open>sample_loads s =
     (if s = ''{"a":{"b":42}}'' then Some (JObj [(''a'', JObj [(''b'', JInt 42)])])
      else if s = ''{"a":{}}'' then Some (JObj [(''a'', JObj [])])
      else if s = ''{"count":0}'' then Some (JObj [(''count'', JInt 0)])
      else None)\<close>

fun sample_dumps :: "json \<Rightarrow> string" where
  "sample_dumps (JInt n) = (if n = 42 then ''42'' else if n = 1 then ''1'' else ''0'')"
| "sample_dumps (JObj kvs) = ''{}''"
| "sample_dumps v = ''null''"

definition sample_lib :: pylib where
  "sample_lib = \<lparr>json_loads = sample_loads, json_dumps = sample_dumps, py_str = sample_dumps\<rparr>"

definition sample_context :: "string \<rightharpoonup> result_content" where
  \<open>sample_context =
     [''toolu_01'' \<mapsto> RStr ''{"a":{"b":42}}'',
      ''toolu_02'' \<mapsto> RStr ''{"a":{}}'',
      ''toolu_03'' \<mapsto> RStr ''3 results'',
      ''toolu_04'' \<mapsto> RStr ''{"count":0}'']\<close>

definition sample_reference :: "string \<Rightarrow> string \<Rightarrow> json" where
  "sample_reference k path = JObj [(''tool_id'', JStr k), (''extract_path'', JStr path)]"

text \<open>A model that asks for \<open>search\<close> under call id \<open>call_1\<close> (and, in the same
  response, for \<open>send\<close>), asks for \<open>search\<close> again under the same call id, and then
  signals insufficient context; and a tool processor whose answer is \<open>first\<close> in
  the first round and \<open>second\<close> later.\<close>

definition sample_first_response :: "block list" where
  "sample_first_response =
     [Text ''Searching.'', ToolUse ''search'' (JObj []) ''call_1'', ToolUse ''send'' (JObj []) ''call_2'']"

definition sample_model ::
  "nat \<Rightarrow> ModelProvider \<Rightarrow> message list \<Rightarrow> json list \<Rightarrow> string \<Rightarrow> error + response" where
  "sample_model k prov msgs catalog sys =
     Inr (AnthropicMessage
       (if k = 0 then sample_first_response
        else if k = 1 then [ToolUse ''search'' (JObj []) ''call_1'']
        else [Text ''I cannot go on.'',
              ToolUse ''signal_insufficient_context''
                (JObj [(''reason'', JStr ''missing calendar access'')]) ''call_3'',
              ToolUse ''search'' (JObj []) ''call_4'']))"

definition sample_processor ::
  "nat \<Rightarrow> string \<Rightarrow> json \<Rightarrow> string \<Rightarrow> block \<Rightarrow> block list \<Rightarrow> message list \<Rightarrow> State \<Rightarrow>
   string list \<Rightarrow> string \<Rightarrow> ModelProvider \<Rightarrow>
   error + (message list \<times> string option \<times> string list \<times> State)" where
  "sample_processor k name args call_id content acc msgs s ft uid prov =
     (if name = ''signal_insufficient_context''
      then Inr (msgs, Some ''STEP_FAILED_INSUFFICIENT_CONTEXT: missing calendar access'', ft, s)
      else Inr (msgs @ [Message Assistant (Blocks (acc @ [content])),
                        Message User (ToolResult call_id
                          (RStr (if k = 1 then ''first'' else ''second'')))],
                Some (if k = 1 then ''first'' else ''second''),
                ft @ [''[Calling tool '' @ name @ '']''], s))"

definition sample_env :: step_env where
  "sample_env = \<lparr>py = sample_lib, get_toolkits_from_arcade = (\<lambda>p t. Inr []),
                  create_message = sample_model, process_tool_call = sample_processor\<rparr>"

definition sample_executor :: StepExecutor where
  "sample_executor = \<lparr>enabled_toolkits = None, se_system_prompt = ''You are a helpful assistant.'',
                       se_user_context = []\<rparr>"

definition sample_tools :: "json list" where
  "sample_tools = [JObj [(''name'', JStr ''search'')], JObj [(''name'', JStr ''send'')]]"

definition sample_state :: State where
  "sample_state = \<lparr>tools = Some sample_tools, tool_results = Some Map.empty\<rparr>"

definition sample_run :: "int \<Rightarrow> error + loop_state" where
  "sample_run cap =
     process_input_with_agent_loop sample_env sample_executor ''Find x'' ANTHROPIC ''user_1'' None
       (Some sample_state) cap"

definition sample_cfg :: "int \<Rightarrow> loop_config" where
  "sample_cfg cap = \<lparr>provider = ANTHROPIC, user_id = ''user_1'', available_tools = sample_tools,
                      current_system_prompt = ''You are a helpful assistant.'',
                      max_iterations = cap\<rparr>"

definition sample_st :: "block list \<Rightarrow> loop_state" where
  "sample_st bs = \<lparr>se_messages = [Message User (Str ''Find x'')], se_response = AnthropicMessage bs,
                   se_final_text = [], se_state = sample_state, se_i = 0, se_model_calls = 1,
                   se_stdout = []\<rparr>"

text \<open>The loop state one round after \<open>sample_st sample_first_response\<close>.\<close>

definition sample_st1 :: loop_state where
  "sample_st1 =
     \<lparr>se_messages =
        [Message User (Str ''Find x''),
         Message Assistant (Blocks [Text ''Searching.'', ToolUse ''search'' (JObj []) ''call_1'']),
         Message User (ToolResult ''call_1'' (RStr ''first''))],
      se_response = AnthropicMessage [ToolUse ''search'' (JObj []) ''call_1''],
      se_final_text = [''Searching.'', ''[Calling tool search]''],
      se_state = \<lparr>tools = Some sample_tools,
                   tool_results = Some [''call_1'' \<mapsto> (''search'', ''first'')]\<rparr>,
      se_i = 0, se_model_calls = 2, se_stdout = []\<rparr>"

text \<open>The loop state two rounds after \<open>sample_st sample_first_response\<close>, under a
  cap above 2.\<close>

definition sample_st2 :: loop_state where
  "sample_st2 =
     \<lparr>se_messages =
        [Message User (Str ''Find x''),
         Message Assistant (Blocks [Text ''Searching.'', ToolUse ''search'' (JObj []) ''call_1'']),
         Message User (ToolResult ''call_1'' (RStr ''first'')),
         Message Assistant (Blocks [ToolUse ''search'' (JObj []) ''call_1'']),
         Message User (ToolResult ''call_1'' (RStr ''second''))],
      se_response = AnthropicMessage
        [Text ''I cannot go on.'',
         ToolUse ''signal_insufficient_context''
           (JObj [(''reason'', JStr ''missing calendar access'')]) ''call_3'',
         ToolUse ''search'' (JObj []) ''call_4''],
      se_final_text = [''Searching.'', ''[Calling tool search]'', ''[Calling tool search]''],
      se_state = \<lparr>tools = Some sample_tools,
                   tool_results = Some [''call_1'' \<mapsto> (''search'', ''second'')]\<rparr>,
      se_i = 2, se_model_calls = 3, se_stdout = []\<rparr>"

text \<open>A round of the step executor in which the model references an earlier
  result, and the loop state after it.\<close>

definition sample_reference_st :: loop_state where
  "sample_reference_st =
     sample_st [ToolUse ''reference_tool_output'' (JObj [(''tool_id'', JStr ''call_1'')]) ''call_5'']"

definition sample_reference_st1 :: loop_state where
  "sample_reference_st1 =
     \<lparr>se_messages =
        [Message User (Str ''Find x''),
         Message Assistant (Blocks
           [ToolUse ''reference_tool_output'' (JObj [(''tool_id'', JStr ''call_1'')]) ''call_5'']),
         Message User (ToolResult ''call_5'' (RStr ''first''))],
      se_response = AnthropicMessage [ToolUse ''search'' (JObj []) ''call_1''],
      se_final_text = [''[Calling tool reference_tool_output]''],
      se_state = sample_state,
      se_i = 0, se_model_calls = 2, se_stdout = []\<rparr>"

definition sample_host_first_response :: "block list" where
  "sample_host_first_response =
     [Text ''Let me check.'', ToolUse ''search'' (JObj []) ''toolu_01'',
      ToolUse ''search'' (JObj []) ''toolu_02'']"

definition sample_host_model ::
  "nat \<Rightarrow> message list \<Rightarrow> json list \<Rightarrow> string \<Rightarrow> error + block list" where
  "sample_host_model k msgs catalog sys =
     Inr (if k = 0 then sample_host_first_response
          else if k = 1 then [ToolUse ''lookup_weather'' (JObj []) ''toolu_03'']
          else [Text ''Done.''])"

definition sample_host_env :: host_env where
  "sample_host_env =
     \<lparr>host_py = sample_lib,
      list_tools = (\<lambda>client. Inr [\<lparr>tool_name = ''search'', tool_description = JStr ''Web search'',
                                    inputSchema = JObj []\<rparr>]),
      get_all_resources_info = Inr [],
      messages_create = sample_host_model,
      call_tool = (\<lambda>k client name args. Inr (RContent [TextContent ''3 results''])),
      read_resource = (\<lambda>k client uri. Inr [TextResourceContents ''notes''])\<rparr>"

definition sample_host_cfg :: host_config where
  "sample_host_cfg =
     \<lparr>h_self = \<lparr>mcp_clients = [''Exa''], host_system_prompt = ''You are a helpful assistant.'',
                 tool_to_client_map = [''search'' \<mapsto> ''Exa'']\<rparr>,
      h_available_tools = [], h_current_system_prompt = ''You are a helpful assistant.''\<rparr>"

definition sample_host_st :: "block list \<Rightarrow> (string \<rightharpoonup> result_content) \<Rightarrow> host_loop_state" where
  "sample_host_st bs ctx = \<lparr>h_messages = [Message User (Str ''Find x'')], h_response = bs,
                            h_final_text = [], h_tool_results_context = ctx, h_model_calls = 1,
                            h_stdout = []\<rparr>"

text \<open>The host loop state one round after \<open>sample_host_st sample_host_first_response Map.empty\<close>.\<close>

definition sample_host_st1 :: host_loop_state where
  "sample_host_st1 =
     \<lparr>h_messages =
        [Message User (Str ''Find x''),
         Message Assistant (Blocks [Text ''Let me check.'', ToolUse ''search'' (JObj []) ''toolu_01'']),
         Message User (ToolResult ''toolu_01'' (RContent [TextContent ''3 results'']))],
      h_response = [ToolUse ''lookup_weather'' (JObj []) ''toolu_03''],
      h_final_text = [''Let me check.'', ''[Calling tool search with args {} via client Exa]''],
      h_tool_results_context = [''toolu_01'' \<mapsto> RContent [TextContent ''3 results'']],
      h_model_calls = 2,
      h_stdout = [''Calling tool search with args {} via client Exa'']\<rparr>"

text \<open>The host loop state one round after a \<open>reference_tool_output\<close> call on
  \<open>sample_context\<close> without an extract path.\<close>

definition sample_host_reference_st1 :: host_loop_state where
  "sample_host_reference_st1 =
     \<lparr>h_messages =
        [Message User (Str ''Find x''),
         Message Assistant (Blocks
           [ToolUse ''reference_tool_output'' (sample_reference ''toolu_03'' []) ''toolu_09'']),
         Message User (ToolResult ''toolu_09'' (RStr ''3 results''))],
      h_response = [ToolUse ''lookup_weather'' (JObj []) ''toolu_03''],
      h_final_text = [],
      h_tool_results_context = sample_context,
      h_model_calls = 2,
      h_stdout = []\<rparr>"

section \<open>Properties\<close>

declare agent_loop.simps [simp del]

subsection \<open>Catalog order\<close>

text \<open>
  Claim C1. For provider ANTHROPIC or OPENAI and any enabled toolkits: if the
  registry raises, so does \<open>get_all_tools\<close>; otherwise the catalog is three
  descriptors followed by exactly the registry's tools, and the three
  descriptors advertise \<open>reference_tool_output\<close>, \<open>get_previous_step_result\<close>,
  \<open>signal_insufficient_context\<close> in that order.
\<close>

theorem control_tools_first:
  assumes "prov = ANTHROPIC \<or> prov = OPENAI"
  shows "case registry prov enabled of
           Inl e \<Rightarrow> get_all_tools registry enabled prov = Inl e
         | Inr arcade_tools \<Rightarrow>
             (\<exists>c1 c2 c3.
                get_all_tools registry enabled prov = Inr (c1 # c2 # c3 # arcade_tools)
                \<and> descriptor_name prov c1 = Some ''reference_tool_output''
                \<and> descriptor_name prov c2 = Some ''get_previous_step_result''
                \<and> descriptor_name prov c3 = Some ''signal_insufficient_context'')"
  using assms by (auto simp: get_all_tools_def split: sum.splits)

theorem control_tools_first_witness:
  "map (descriptor_name OPENAI)
     (take 3 (projr (get_all_tools (\<lambda>p t. Inr [JObj [(''type'', JStr ''function''),
        (''function'', JObj [(''name'', JStr ''Gmail_SendEmail'')])]]) (Some [''gmail'']) OPENAI)))
   = [Some ''reference_tool_output'', Some ''get_previous_step_result'',
      Some ''signal_insufficient_context'']
   \<and> length (projr (get_all_tools (\<lambda>p t. Inr [JObj [(''type'', JStr ''function''),
        (''function'', JObj [(''name'', JStr ''Gmail_SendEmail'')])]]) (Some [''gmail'']) OPENAI)) = 4"
  using control_tools_first [of OPENAI "\<lambda>p t. Inr [JObj [(''type'', JStr ''function''),
        (''function'', JObj [(''name'', JStr ''Gmail_SendEmail'')])]]" "Some [''gmail'']"]
  by auto

subsection \<open>Referencing an earlier result\<close>

lemma walk_path_resolve: "resolve d ps = Some v \<Longrightarrow> walk_path d ps = Inr v"
  by (induction d ps rule: resolve.induct) (auto split: option.splits)

text \<open>
  Claim C5. When the \<open>tool_id\<close> argument is a string that is not a key of the
  call-result cache, \<open>reference_tool_output\<close> raises nothing: whatever the other
  arguments are, it returns the history extended by the assistant message and
  by a tool result whose content is exactly
  \<^verbatim>\<open>Error: No tool result found with ID '<tool_id>'\<close>.
\<close>

theorem reference_unknown_id:
  assumes "map_of kvs ''tool_id'' = Some (JStr tid)" and "ctx tid = None"
  shows "handle_reference_tool l call_id (JObj kvs) content acc msgs ctx =
         Inr (msgs @ [Message Assistant (Blocks (acc @ [content])),
                Message User (ToolResult call_id
                  (RStr (''Error: No tool result found with ID '' @ [CHR 0x27] @ tid @ [CHR 0x27])))],
              None)"
  using assms by (simp add: handle_reference_tool_def)

theorem reference_unknown_id_witness:
  "handle_reference_tool sample_lib ''toolu_09''
     (JObj [(''tool_id'', JStr ''toolu_99'')])
     (ToolUse ''reference_tool_output'' (JObj [(''tool_id'', JStr ''toolu_99'')]) ''toolu_09'')
     [Text ''Let me look that up.''] [Message User (Str ''hi'')] sample_context
   = Inr ([Message User (Str ''hi''),
           Message Assistant (Blocks [Text ''Let me look that up.'',
              ToolUse ''reference_tool_output'' (JObj [(''tool_id'', JStr ''toolu_99'')]) ''toolu_09'']),
           Message User (ToolResult ''toolu_09''
              (RStr (''Error: No tool result found with ID 'toolu_99'' @ [CHR 0x27])))], None)"
  using reference_unknown_id [of "[(''tool_id'', JStr ''toolu_99'')]" "''toolu_99''" sample_context
     sample_lib "''toolu_09''"
     "ToolUse ''reference_tool_output'' (JObj [(''tool_id'', JStr ''toolu_99'')]) ''toolu_09''"
     "[Text ''Let me look that up.'']" "[Message User (Str ''hi'')]"]
  by (simp add: sample_context_def)

text \<open>
  Claim C6. Take a JSON library that reads \<^verbatim>\<open>{"a":{"b":42}}\<close> and \<^verbatim>\<open>{"a":{}}\<close> as
  the nested dicts they denote and writes the integer 42 as \<^verbatim>\<open>42\<close>. Then
  \<open>reference_tool_output\<close> with \<open>extract_path\<close> \<^verbatim>\<open>a.b\<close> answers \<^verbatim>\<open>42\<close> for the first
  cached document, \<^verbatim>\<open>Path not found in data\<close> for the second, and
  \<^verbatim>\<open>Cannot extract path: result is not valid JSON\<close> for any cached string the
  library rejects. The cached string is not empty: the loop never stores an
  empty result (lemma \<open>cache_holds_no_empty_result\<close>).
\<close>

theorem extract_path_examples:
  assumes \<open>json_loads l ''{"a":{"b":42}}'' = Some (JObj [(''a'', JObj [(''b'', JInt 42)])])\<close>
      and \<open>json_dumps l (JInt 42) = ''42''\<close>
      and \<open>json_loads l ''{"a":{}}'' = Some (JObj [(''a'', JObj [])])\<close>
      and \<open>json_loads l s = None\<close> and \<open>s \<noteq> []\<close>
      and \<open>ctx k1 = Some (RStr ''{"a":{"b":42}}'')\<close>
      and \<open>ctx k2 = Some (RStr ''{"a":{}}'')\<close>
      and \<open>ctx k3 = Some (RStr s)\<close>
  shows \<open>handle_reference_tool l call_id
           (JObj [(''tool_id'', JStr k1), (''extract_path'', JStr ''a.b'')]) content acc msgs ctx
         = Inr (msgs @ [Message Assistant (Blocks (acc @ [content])),
                        Message User (ToolResult call_id (RStr ''42''))], None)
       \<and> handle_reference_tool l call_id
           (JObj [(''tool_id'', JStr k2), (''extract_path'', JStr ''a.b'')]) content acc msgs ctx
         = Inr (msgs @ [Message Assistant (Blocks (acc @ [content])),
                        Message User (ToolResult call_id (RStr ''Path not found in data''))], None)
       \<and> handle_reference_tool l call_id
           (JObj [(''tool_id'', JStr k3), (''extract_path'', JStr ''a.b'')]) content acc msgs ctx
         = Inr (msgs @ [Message Assistant (Blocks (acc @ [content])),
                        Message User (ToolResult call_id
                          (RStr ''Cannot extract path: result is not valid JSON''))], None)\<close>
  using assms by (simp add: handle_reference_tool_def extract_reference_data_def)

theorem extract_path_examples_witness:
  \<open>handle_reference_tool sample_lib ''toolu_09'' (sample_reference ''toolu_01'' ''a.b'')
      (ToolUse ''reference_tool_output'' (sample_reference ''toolu_01'' ''a.b'') ''toolu_09'') [] []
      sample_context
    = Inr ([Message Assistant (Blocks
              [ToolUse ''reference_tool_output'' (sample_reference ''toolu_01'' ''a.b'') ''toolu_09'']),
            Message User (ToolResult ''toolu_09'' (RStr ''42''))], None)
   \<and> handle_reference_tool sample_lib ''toolu_09'' (sample_reference ''toolu_02'' ''a.b'')
      (ToolUse ''reference_tool_output'' (sample_reference ''toolu_01'' ''a.b'') ''toolu_09'') [] []
      sample_context
    = Inr ([Message Assistant (Blocks
              [ToolUse ''reference_tool_output'' (sample_reference ''toolu_01'' ''a.b'') ''toolu_09'']),
            Message User (ToolResult ''toolu_09'' (RStr ''Path not found in data''))], None)
   \<and> handle_reference_tool sample_lib ''toolu_09'' (sample_reference ''toolu_03'' ''a.b'')
      (ToolUse ''reference_tool_output'' (sample_reference ''toolu_01'' ''a.b'') ''toolu_09'') [] []
      sample_context
    = Inr ([Message Assistant (Blocks
              [ToolUse ''reference_tool_output'' (sample_reference ''toolu_01'' ''a.b'') ''toolu_09'']),
            Message User (ToolResult ''toolu_09''
              (RStr ''Cannot extract path: result is not valid JSON''))], None)\<close>
  using extract_path_examples [of sample_lib "''3 results''" sample_context "''toolu_01''"
      "''toolu_02''" "''toolu_03''" "''toolu_09''"
      "ToolUse ''reference_tool_output'' (sample_reference ''toolu_01'' ''a.b'') ''toolu_09''" "[]" "[]"]
  by (simp add: sample_lib_def sample_loads_def sample_context_def sample_reference_def)

text \<open>
  Claim C10. When the cached result is a string the JSON library accepts and
  every part of \<open>extract_path\<close> is present in it, but the value the path leads
  to is 0, false, null, an empty string, an empty array or an empty object,
  \<open>reference_tool_output\<close> answers \<^verbatim>\<open>Path not found in data\<close>, not the serialized
  value: the code tests the value reached, not the presence of the path.
\<close>

theorem falsy_value_reported_missing:
  assumes "ctx k = Some (RStr s)" and "s \<noteq> []" and "json_loads l s = Some loaded"
      and "path \<noteq> []"
      and "resolve loaded (split_on (CHR ''.'') path) = Some v"
      and "v = JNull \<or> v = JBool False \<or> v = JInt 0 \<or> v = JStr [] \<or> v = JArr [] \<or> v = JObj []"
  shows "handle_reference_tool l call_id
           (JObj [(''tool_id'', JStr k), (''extract_path'', JStr path)]) content acc msgs ctx
         = Inr (msgs @ [Message Assistant (Blocks (acc @ [content])),
                        Message User (ToolResult call_id (RStr ''Path not found in data''))], None)"
  using assms walk_path_resolve [of loaded "split_on (CHR ''.'') path" v]
  by (auto simp add: handle_reference_tool_def extract_reference_data_def)

theorem falsy_value_reported_missing_witness:
  \<open>resolve (JObj [(''count'', JInt 0)]) (split_on (CHR ''.'') ''count'') = Some (JInt 0)
   \<and> handle_reference_tool sample_lib ''toolu_09'' (sample_reference ''toolu_04'' ''count'')
      (ToolUse ''reference_tool_output'' (sample_reference ''toolu_04'' ''count'') ''toolu_09'') [] []
      sample_context
    = Inr ([Message Assistant (Blocks
              [ToolUse ''reference_tool_output'' (sample_reference ''toolu_04'' ''count'') ''toolu_09'']),
            Message User (ToolResult ''toolu_09'' (RStr ''Path not found in data''))], None)\<close>
  using falsy_value_reported_missing [of sample_context "''toolu_04''" \<open>''{"count":0}''\<close> sample_lib
      "JObj [(''count'', JInt 0)]" "''count''" "JInt 0" "''toolu_09''"
      "ToolUse ''reference_tool_output'' (sample_reference ''toolu_04'' ''count'') ''toolu_09''" "[]" "[]"]
  by (simp add: sample_lib_def sample_loads_def sample_context_def sample_reference_def)

lemmas sample_step_defs = sample_env_def sample_cfg_def sample_st_def sample_st1_def sample_st2_def
  sample_state_def sample_model_def sample_processor_def sample_first_response_def sample_lib_def
  sample_tools_def

lemmas sample_host_defs = sample_host_env_def sample_host_cfg_def sample_host_st_def
  sample_host_model_def sample_host_first_response_def sample_host_st1_def sample_lib_def
  sample_context_def sample_reference_def

lemmas step_defs = round_def dispatch_def next_response_def memoize_def INSUFFICIENT_CONTEXT_def
  max_iterations_warning_def counted_def cached_def cached_after_def

lemmas host_defs = host_round_def host_dispatch_def host_process_tool_call_def
  handle_standard_tool_def handle_reference_tool_def extract_reference_data_def
  tool_not_found_message_def tool_not_available_message_def

subsection \<open>One round of either loop\<close>

lemma scan_contents_skip:
  "\<forall>b \<in> set pre. \<not> is_ToolUse b \<Longrightarrow>
   scan_contents env cfg st acc ft (pre @ bs) =
   scan_contents env cfg st (acc @ text_blocks pre) (ft @ texts pre) bs"
proof (induction pre arbitrary: acc ft)
  case Nil
  then show ?case by simp
next
  case (Cons b pre)
  then show ?case by (cases b) simp_all
qed

lemma host_scan_contents_skip:
  "\<forall>b \<in> set pre. \<not> is_ToolUse b \<Longrightarrow>
   host_scan_contents env cfg st acc ft (pre @ bs) =
   host_scan_contents env cfg st (acc @ text_blocks pre) (ft @ texts pre) bs"
proof (induction pre arbitrary: acc ft)
  case Nil
  then show ?case by simp
next
  case (Cons b pre)
  then show ?case by (cases b) simp_all
qed

lemma round_first_tool_use:
  assumes "response_contents (py env) (provider cfg) (se_response st) = Inr (pre @ ToolUse n a c # rest)"
      and "\<forall>b \<in> set pre. \<not> is_ToolUse b"
  shows "round env cfg st = dispatch env cfg st (text_blocks pre) (se_final_text st @ texts pre) n a c"
  using assms by (simp add: round_def scan_contents_skip)

lemma host_dispatch_cases:
  "(\<exists>e. host_dispatch env cfg st acc ft n a c = Raised e)
   \<or> (\<exists>st'. host_dispatch env cfg st acc ft n a c = ToolCalled st')"
  by (auto simp: host_dispatch_def split: sum.splits prod.splits)

lemma host_round_first_tool_use:
  assumes "h_response st = pre @ ToolUse n a c # rest"
      and "\<forall>b \<in> set pre. \<not> is_ToolUse b"
  shows "host_round env cfg st =
         host_dispatch env cfg st (text_blocks pre) (h_final_text st @ texts pre) n a c"
  using assms host_dispatch_cases [of env cfg st "text_blocks pre" "h_final_text st @ texts pre" n a c]
  by (auto simp add: host_round_def host_scan_contents_skip)

lemma dispatch_tool_called:
  assumes "process_tool_call env (se_model_calls st) n a c (ToolUse n a c) acc
             (se_messages st) (se_state st) ft (user_id cfg) (provider cfg) = Inr (um, rc, ft', s')"
      and "dispatch env cfg st acc ft n a c = ToolCalled st'"
  shows "memoize n c rc s' = Inr (se_state st')
       \<and> \<not> (\<exists>r. rc = Some r \<and> r \<noteq> [] \<and> startswith r INSUFFICIENT_CONTEXT)"
  using assms
  by (auto simp: dispatch_def next_response_def split: sum.splits option.splits if_splits)

lemma dispatch_returned:
  assumes "process_tool_call env (se_model_calls st) n a c (ToolUse n a c) acc
             (se_messages st) (se_state st) ft (user_id cfg) (provider cfg) = Inr (um, rc, ft', s')"
      and "dispatch env cfg st acc ft n a c = Returned st'"
  shows "se_state st' = s'"
  using assms
  by (auto simp: dispatch_def next_response_def split: sum.splits option.splits if_splits)

lemma scan_contents_counters:
  "(scan_contents env cfg st acc ft bs = NoToolCalls st' \<longrightarrow>
      se_i st' = se_i st \<and> se_model_calls st' = se_model_calls st)
   \<and> (scan_contents env cfg st acc ft bs = ToolCalled st' \<longrightarrow>
      se_i st' = se_i st \<and> se_model_calls st' = se_model_calls st + 1)"
proof (induction env cfg st acc ft bs rule: scan_contents.induct)
  case (1 env cfg st acc final_text)
  then show ?case by auto
next
  case (2 env cfg st acc final_text t rest)
  then show ?case by simp
next
  case (3 env cfg st acc final_text tool_name tool_args tool_id rest)
  then show ?case
    by (auto simp: dispatch_def next_response_def split: sum.splits option.splits if_splits)
next
  case (4 env cfg st acc final_text ty rest)
  then show ?case by simp
qed

lemma round_counters:
  "(round env cfg st = NoToolCalls st' \<longrightarrow>
      se_i st' = se_i st \<and> se_model_calls st' = se_model_calls st)
   \<and> (round env cfg st = ToolCalled st' \<longrightarrow>
      se_i st' = se_i st \<and> se_model_calls st' = se_model_calls st + 1)"
  using scan_contents_counters [of env cfg st "[]" "se_final_text st" _ st']
  by (auto simp: round_def split: sum.splits)

text \<open>For OpenAI the arguments of every function call of the response are
  decoded before the first block is looked at: a later call with malformed
  arguments makes the round raise without any dispatch.\<close>

lemma convert_tool_calls_malformed:
  "tc \<in> set tcs \<Longrightarrow> json_loads l (tc_arguments tc) = None \<Longrightarrow>
   convert_tool_calls l tcs = Inl JSONDecodeError"
  by (induction tcs) (auto split: option.splits sum.splits)

lemma openai_round_malformed_arguments:
  assumes "provider cfg = OPENAI"
      and "se_response st = ChatCompletion (m # ms)"
      and "msg_tool_calls m = Some tcs"
      and "tc \<in> set tcs"
      and "json_loads (py env) (tc_arguments tc) = None"
  shows "round env cfg st = Raised JSONDecodeError"
  using assms convert_tool_calls_malformed [of tc tcs "py env"]
  by (simp add: round_def)

subsection \<open>Rounds of the step executor's loop\<close>

lemma agent_loop_tool_called:
  assumes "round env cfg st = ToolCalled st'" and "se_i st < max_iterations cfg"
  shows "agent_loop env cfg st = agent_loop env cfg (counted env cfg st st')"
  using assms by (subst agent_loop.simps) simp

lemma agent_loop_at_cap: "\<not> se_i st < max_iterations cfg \<Longrightarrow> agent_loop env cfg st = Inr st"
  by (subst agent_loop.simps) simp

lemma after_rounds_agent_loop:
  "after_rounds env cfg k st0 = Some st \<Longrightarrow> agent_loop env cfg st0 = agent_loop env cfg st"
proof (induction k arbitrary: st0)
  case 0
  then show ?case by simp
next
  case (Suc k)
  from Suc.prems obtain st' where below: "se_i st0 < max_iterations cfg"
    and r: "round env cfg st0 = ToolCalled st'"
    and rest: "after_rounds env cfg k (counted env cfg st0 st') = Some st"
    by (auto split: if_splits outcome.splits)
  have "agent_loop env cfg st0 = agent_loop env cfg (counted env cfg st0 st')"
    using r below by (rule agent_loop_tool_called)
  also have "\<dots> = agent_loop env cfg st"
    using rest by (rule Suc.IH)
  finally show ?case .
qed

lemma after_rounds_counters:
  "after_rounds env cfg k st0 = Some st \<Longrightarrow>
   se_i st = se_i st0 + int k \<and> se_model_calls st = se_model_calls st0 + k"
proof (induction k arbitrary: st0)
  case 0
  then show ?case by simp
next
  case (Suc k)
  from Suc.prems obtain st' where r: "round env cfg st0 = ToolCalled st'"
    and rest: "after_rounds env cfg k (counted env cfg st0 st') = Some st"
    by (auto split: if_splits outcome.splits)
  from r have "se_model_calls st' = se_model_calls st0 + 1"
    using round_counters by blast
  with Suc.IH [OF rest] show ?case
    by (simp add: counted_def)
qed

text \<open>Once the catalog is chosen and the provider has answered the first model
  call, the invocation is the loop started on that answer.\<close>

lemma invocation_is_loop:
  assumes "tools state0 = Some catalog" and "catalog \<noteq> []"
      and "create_message env 0 prov
             [Message User (Str (if se_user_context self \<noteq> []
                                 then input_action @ ''\<newline>\<newline>USER CONTEXT:\<newline>'' @ se_user_context self
                                 else input_action))]
             catalog (case system_prompt of None \<Rightarrow> se_system_prompt self | Some p \<Rightarrow> p) = Inr r"
  shows "process_input_with_agent_loop env self input_action prov uid system_prompt (Some state0) cap =
         agent_loop env
           \<lparr>provider = prov, user_id = uid, available_tools = catalog,
            current_system_prompt = (case system_prompt of None \<Rightarrow> se_system_prompt self | Some p \<Rightarrow> p),
            max_iterations = cap\<rparr>
           \<lparr>se_messages =
              [Message User (Str (if se_user_context self \<noteq> []
                                  then input_action @ ''\<newline>\<newline>USER CONTEXT:\<newline>'' @ se_user_context self
                                  else input_action))],
            se_response = r, se_final_text = [], se_state = state0, se_i = 0,
            se_model_calls = 1, se_stdout = []\<rparr>"
  using assms by (simp add: process_input_with_agent_loop_def Let_def)

lemma sample_run_is_loop:
  "sample_run cap = agent_loop sample_env (sample_cfg cap) (sample_st sample_first_response)"
  by (simp add: sample_run_def process_input_with_agent_loop_def sample_executor_def
        sample_step_defs)

lemma sample_first_round:
  "round sample_env (sample_cfg cap) (sample_st sample_first_response) = ToolCalled sample_st1"
  by (simp add: sample_step_defs step_defs)

lemma sample_two_rounds:
  "after_rounds sample_env (sample_cfg 25) (Suc (Suc 0)) (sample_st sample_first_response)
   = Some sample_st2"
  by (simp add: sample_step_defs step_defs)

subsection \<open>The call-result cache\<close>

lemma memoize_other_keys:
  "memoize n c rc s = Inr s' \<Longrightarrow> k \<noteq> c \<Longrightarrow> cached s' k = cached s k"
  by (auto simp: memoize_def cached_def split: option.splits if_splits)

lemma memoize_written:
  "memoize n c (Some r) s = Inr s' \<Longrightarrow> r \<noteq> [] \<Longrightarrow> n \<noteq> ''get_previous_step_result'' \<Longrightarrow>
   n \<noteq> ''reference_tool_output'' \<Longrightarrow> cached s' c = Some (n, r)"
  by (auto simp: memoize_def cached_def split: option.splits if_splits)

lemma memoize_control:
  "n = ''get_previous_step_result'' \<or> n = ''reference_tool_output'' \<Longrightarrow> memoize n c rc s = Inr s"
  by (auto simp: memoize_def split: option.splits)

text \<open>The host's cache only ever receives results that are not empty.\<close>

lemma host_dispatch_no_empty_result:
  assumes "host_dispatch env cfg st acc ft n a c = ToolCalled st'"
      and "\<forall>k v. h_tool_results_context st k = Some v \<longrightarrow> truthy_result v"
  shows "\<forall>k v. h_tool_results_context st' k = Some v \<longrightarrow> truthy_result v"
  using assms
  by (auto simp: host_dispatch_def split: sum.splits option.splits if_splits)

lemma host_scan_no_empty_result:
  "host_scan_contents env cfg st acc ft bs = ToolCalled st' \<Longrightarrow>
   \<forall>k v. h_tool_results_context st k = Some v \<longrightarrow> truthy_result v \<Longrightarrow>
   \<forall>k v. h_tool_results_context st' k = Some v \<longrightarrow> truthy_result v"
proof (induction env cfg st acc ft bs rule: host_scan_contents.induct)
  case (1 env cfg st acc final_text)
  then show ?case by simp
next
  case (2 env cfg st acc final_text t rest)
  then show ?case by simp
next
  case (3 env cfg st acc final_text name tool_args tool_id rest)
  then show ?case
    using host_dispatch_no_empty_result [of env cfg st acc final_text name tool_args tool_id st']
    by simp
next
  case (4 env cfg st acc final_text ty rest)
  then show ?case by simp
qed

lemma cache_holds_no_empty_result:
  assumes "host_round env cfg st = ToolCalled st'"
      and "\<forall>k v. h_tool_results_context st k = Some v \<longrightarrow> truthy_result v"
  shows "\<forall>k v. h_tool_results_context st' k = Some v \<longrightarrow> truthy_result v"
proof -
  from assms(1) have "host_scan_contents env cfg st [] (h_final_text st) (h_response st) = ToolCalled st'"
    by (auto simp: host_round_def split: outcome.splits)
  then show ?thesis
    using assms(2) by (rule host_scan_no_empty_result)
qed

subsection \<open>One tool call per round\<close>

text \<open>
  Claim C3. When the blocks of a response are \<open>pre\<close>, a tool-use block and
  \<open>rest\<close>, with no tool-use block in \<open>pre\<close>, the round of either loop is the
  dispatch of that first block alone: \<open>rest\<close> does not occur in the outcome, so
  its blocks are neither dispatched nor looked at. If the dispatch completes
  (no exception, no insufficiency signal) the round ends with one more model
  call, made on the history the tool call produced, and its answer is the
  response of the next round.
\<close>

theorem only_first_tool_use_dispatched:
  assumes "\<forall>b \<in> set pre. \<not> is_ToolUse b"
  shows "(response_contents (py env) (provider cfg) (se_response st) = Inr (pre @ ToolUse n a c # rest)
          \<longrightarrow> round env cfg st
              = dispatch env cfg st (text_blocks pre) (se_final_text st @ texts pre) n a c
            \<and> (\<forall>um rc ft' s' s'' r.
                 process_tool_call env (se_model_calls st) n a c (ToolUse n a c) (text_blocks pre)
                   (se_messages st) (se_state st) (se_final_text st @ texts pre)
                   (user_id cfg) (provider cfg) = Inr (um, rc, ft', s')
                 \<and> \<not> (\<exists>r'. rc = Some r' \<and> startswith r' INSUFFICIENT_CONTEXT)
                 \<and> memoize n c rc s' = Inr s''
                 \<and> create_message env (se_model_calls st) (provider cfg) um
                     (available_tools cfg) (current_system_prompt cfg) = Inr r
                 \<longrightarrow> round env cfg st =
                     ToolCalled (st\<lparr>se_messages := um, se_response := r, se_final_text := ft',
                                     se_state := s'', se_model_calls := se_model_calls st + 1\<rparr>)))
       \<and> (h_response hst = pre @ ToolUse n a c # rest
          \<longrightarrow> host_round henv hcfg hst
              = host_dispatch henv hcfg hst (text_blocks pre) (h_final_text hst @ texts pre) n a c
            \<and> (\<forall>um rc ft' out' r.
                 host_process_tool_call henv (h_model_calls hst) (h_self hcfg) n a c (ToolUse n a c)
                   (text_blocks pre) (h_messages hst) (h_tool_results_context hst)
                   (h_final_text hst @ texts pre) (h_stdout hst) = Inr (um, rc, ft', out')
                 \<and> messages_create henv (h_model_calls hst) um (h_available_tools hcfg)
                     (h_current_system_prompt hcfg) = Inr r
                 \<longrightarrow> host_round henv hcfg hst =
                     ToolCalled (hst\<lparr>h_messages := um, h_response := r, h_final_text := ft',
                                      h_tool_results_context :=
                                        (case rc of
                                           None \<Rightarrow> h_tool_results_context hst
                                         | Some v \<Rightarrow>
                                             (if truthy_result v
                                              then (h_tool_results_context hst)(c \<mapsto> v)
                                              else h_tool_results_context hst)),
                                      h_model_calls := h_model_calls hst + 1, h_stdout := out'\<rparr>)))"
proof (intro conjI impI allI)
  assume "response_contents (py env) (provider cfg) (se_response st) = Inr (pre @ ToolUse n a c # rest)"
  then show "round env cfg st
               = dispatch env cfg st (text_blocks pre) (se_final_text st @ texts pre) n a c"
    using assms by (rule round_first_tool_use)
next
  fix um rc ft' s' s'' r
  assume resp: "response_contents (py env) (provider cfg) (se_response st)
                  = Inr (pre @ ToolUse n a c # rest)"
    and h: "process_tool_call env (se_model_calls st) n a c (ToolUse n a c) (text_blocks pre)
                   (se_messages st) (se_state st) (se_final_text st @ texts pre)
                   (user_id cfg) (provider cfg) = Inr (um, rc, ft', s')
                 \<and> \<not> (\<exists>r'. rc = Some r' \<and> startswith r' INSUFFICIENT_CONTEXT)
                 \<and> memoize n c rc s' = Inr s''
                 \<and> create_message env (se_model_calls st) (provider cfg) um
                     (available_tools cfg) (current_system_prompt cfg) = Inr r"
  have "round env cfg st
          = dispatch env cfg st (text_blocks pre) (se_final_text st @ texts pre) n a c"
    using resp assms by (rule round_first_tool_use)
  with h show "round env cfg st =
                 ToolCalled (st\<lparr>se_messages := um, se_response := r, se_final_text := ft',
                                 se_state := s'', se_model_calls := se_model_calls st + 1\<rparr>)"
    by (auto simp: dispatch_def next_response_def split: option.splits)
next
  assume "h_response hst = pre @ ToolUse n a c # rest"
  then show "host_round henv hcfg hst
               = host_dispatch henv hcfg hst (text_blocks pre) (h_final_text hst @ texts pre) n a c"
    using assms by (rule host_round_first_tool_use)
next
  fix um rc ft' out' r
  assume resp: "h_response hst = pre @ ToolUse n a c # rest"
    and h: "host_process_tool_call henv (h_model_calls hst) (h_self hcfg) n a c (ToolUse n a c)
                   (text_blocks pre) (h_messages hst) (h_tool_results_context hst)
                   (h_final_text hst @ texts pre) (h_stdout hst) = Inr (um, rc, ft', out')
                 \<and> messages_create henv (h_model_calls hst) um (h_available_tools hcfg)
                     (h_current_system_prompt hcfg) = Inr r"
  have "host_round henv hcfg hst
          = host_dispatch henv hcfg hst (text_blocks pre) (h_final_text hst @ texts pre) n a c"
    using resp assms by (rule host_round_first_tool_use)
  with h show "host_round henv hcfg hst =
                 ToolCalled (hst\<lparr>h_messages := um, h_response := r, h_final_text := ft',
                                  h_tool_results_context :=
                                    (case rc of
                                       None \<Rightarrow> h_tool_results_context hst
                                     | Some v \<Rightarrow>
                                         (if truthy_result v
                                          then (h_tool_results_context hst)(c \<mapsto> v)
                                          else h_tool_results_context hst)),
                                  h_model_calls := h_model_calls hst + 1, h_stdout := out'\<rparr>)"
    by (simp add: host_dispatch_def)
qed

theorem only_first_tool_use_dispatched_witness:
  "round sample_env (sample_cfg 1) (sample_st sample_first_response) = ToolCalled sample_st1
   \<and> host_round sample_host_env sample_host_cfg (sample_host_st sample_host_first_response Map.empty)
     = ToolCalled sample_host_st1"
proof -
  have p: "\<forall>b \<in> set [Text ''Searching.'']. \<not> is_ToolUse b" by simp
  have q: "\<forall>b \<in> set [Text ''Let me check.'']. \<not> is_ToolUse b" by simp
  have "round sample_env (sample_cfg 1) (sample_st sample_first_response)
        = dispatch sample_env (sample_cfg 1) (sample_st sample_first_response)
            (text_blocks [Text ''Searching.''])
            (se_final_text (sample_st sample_first_response) @ texts [Text ''Searching.''])
            ''search'' (JObj []) ''call_1''"
    using only_first_tool_use_dispatched [OF p, of sample_env "sample_cfg 1"
        "sample_st sample_first_response" "''search''" "JObj []" "''call_1''"
        "[ToolUse ''send'' (JObj []) ''call_2'']"]
    by (simp add: sample_step_defs)
  then have a: "round sample_env (sample_cfg 1) (sample_st sample_first_response) = ToolCalled sample_st1"
    by (simp add: sample_step_defs step_defs)
  have "host_round sample_host_env sample_host_cfg
          (sample_host_st sample_host_first_response Map.empty)
        = host_dispatch sample_host_env sample_host_cfg
            (sample_host_st sample_host_first_response Map.empty)
            (text_blocks [Text ''Let me check.''])
            (h_final_text (sample_host_st sample_host_first_response Map.empty)
               @ texts [Text ''Let me check.''])
            ''search'' (JObj []) ''toolu_01''"
    using only_first_tool_use_dispatched [OF q, of _ _ _ "''search''" "JObj []" "''toolu_01''"
        "[ToolUse ''search'' (JObj []) ''toolu_02'']"
        "sample_host_st sample_host_first_response Map.empty" sample_host_env sample_host_cfg]
    by (simp add: sample_host_defs sample_host_first_response_def)
  then have b: "host_round sample_host_env sample_host_cfg
                  (sample_host_st sample_host_first_response Map.empty)
                = ToolCalled sample_host_st1"
    by (simp add: sample_host_defs sample_host_first_response_def sample_host_st1_def
          host_dispatch_def host_process_tool_call_def handle_standard_tool_def)
  from a b show ?thesis ..
qed

subsection \<open>The insufficiency signal\<close>

text \<open>
  Claim C2. Let an invocation have completed \<open>k\<close> tool-call rounds and be about
  to enter the next one (the counter is below the cap). If in that round the
  first tool-use block of the response is dispatched and the tool processor
  hands back a result that begins with \<open>STEP_FAILED_INSUFFICIENT_CONTEXT\<close>, the
  invocation returns at once: the output is the buffer the processor left
  followed by that result as its last element, and the state returned has the
  number of model calls the round started with, one per completed round, so no
  model call follows the signal.
\<close>

theorem insufficient_context_returns:
  assumes "after_rounds env cfg k st0 = Some st"
      and "se_i st < max_iterations cfg"
      and "response_contents (py env) (provider cfg) (se_response st) = Inr (pre @ ToolUse n a c # rest)"
      and "\<forall>b \<in> set pre. \<not> is_ToolUse b"
      and "process_tool_call env (se_model_calls st) n a c (ToolUse n a c) (text_blocks pre)
             (se_messages st) (se_state st) (se_final_text st @ texts pre)
             (user_id cfg) (provider cfg) = Inr (um, Some rc, ft', s')"
      and "startswith rc INSUFFICIENT_CONTEXT"
  shows "agent_loop env cfg st0 = Inr (st\<lparr>se_final_text := ft' @ [rc], se_state := s'\<rparr>)
       \<and> se_model_calls st = se_model_calls st0 + k"
proof
  have ne: "rc \<noteq> []"
    using assms(6) by (auto simp: INSUFFICIENT_CONTEXT_def)
  have "round env cfg st = dispatch env cfg st (text_blocks pre) (se_final_text st @ texts pre) n a c"
    using assms(3,4) by (rule round_first_tool_use)
  then have "round env cfg st = Returned (st\<lparr>se_final_text := ft' @ [rc], se_state := s'\<rparr>)"
    using assms(5,6) ne by (simp add: dispatch_def)
  then have "agent_loop env cfg st = Inr (st\<lparr>se_final_text := ft' @ [rc], se_state := s'\<rparr>)"
    using assms(2) by (subst agent_loop.simps) simp
  then show "agent_loop env cfg st0 = Inr (st\<lparr>se_final_text := ft' @ [rc], se_state := s'\<rparr>)"
    using after_rounds_agent_loop [OF assms(1)] by simp
  show "se_model_calls st = se_model_calls st0 + k"
    using after_rounds_counters [OF assms(1)] by simp
qed

theorem insufficient_context_returns_witness:
  "after_rounds sample_env (sample_cfg 25) (Suc (Suc 0)) (sample_st sample_first_response)
     = Some sample_st2
   \<and> sample_run 25 =
       Inr (sample_st2\<lparr>se_final_text :=
              [''Searching.'', ''[Calling tool search]'', ''[Calling tool search]'',
               ''I cannot go on.'', ''STEP_FAILED_INSUFFICIENT_CONTEXT: missing calendar access'']\<rparr>)
   \<and> se_model_calls sample_st2 = 3"
proof -
  have "agent_loop sample_env (sample_cfg 25) (sample_st sample_first_response)
        = Inr (sample_st2\<lparr>se_final_text :=
                 [''Searching.'', ''[Calling tool search]'', ''[Calling tool search]'',
                  ''I cannot go on.''] @
                 [''STEP_FAILED_INSUFFICIENT_CONTEXT: missing calendar access''],
               se_state := se_state sample_st2\<rparr>)
        \<and> se_model_calls sample_st2 = se_model_calls (sample_st sample_first_response) + Suc (Suc 0)"
    using sample_two_rounds
  proof (rule insufficient_context_returns)
    show "se_i sample_st2 < max_iterations (sample_cfg 25)"
      by (simp add: sample_st2_def sample_cfg_def)
    show "response_contents (py sample_env) (provider (sample_cfg 25)) (se_response sample_st2)
          = Inr ([Text ''I cannot go on.''] @
                 ToolUse ''signal_insufficient_context''
                   (JObj [(''reason'', JStr ''missing calendar access'')]) ''call_3''
                 # [ToolUse ''search'' (JObj []) ''call_4''])"
      by (simp add: sample_st2_def sample_cfg_def)
    show "\<forall>b \<in> set [Text ''I cannot go on.'']. \<not> is_ToolUse b"
      by simp
    show "process_tool_call sample_env (se_model_calls sample_st2) ''signal_insufficient_context''
            (JObj [(''reason'', JStr ''missing calendar access'')]) ''call_3''
            (ToolUse ''signal_insufficient_context''
               (JObj [(''reason'', JStr ''missing calendar access'')]) ''call_3'')
            (text_blocks [Text ''I cannot go on.'']) (se_messages sample_st2) (se_state sample_st2)
            (se_final_text sample_st2 @ texts [Text ''I cannot go on.''])
            (user_id (sample_cfg 25)) (provider (sample_cfg 25))
          = Inr (se_messages sample_st2,
                 Some ''STEP_FAILED_INSUFFICIENT_CONTEXT: missing calendar access'',
                 [''Searching.'', ''[Calling tool search]'', ''[Calling tool search]'',
                  ''I cannot go on.''],
                 se_state sample_st2)"
      by (simp add: sample_step_defs)
    show "startswith ''STEP_FAILED_INSUFFICIENT_CONTEXT: missing calendar access'' INSUFFICIENT_CONTEXT"
      by (simp add: INSUFFICIENT_CONTEXT_def)
  qed
  then show ?thesis
    using sample_two_rounds by (simp add: sample_run_is_loop sample_st2_def)
qed

subsection \<open>The iteration cap\<close>

text \<open>
  Claim C4. After \<open>k\<close> completed tool-call rounds the counter has gone up by
  \<open>k\<close>, and so has the number of model calls. If the round then entered
  completes a tool call and brings the counter to the cap, the invocation does
  not raise: it returns the state of that round, output buffer included, with
  the warning printed last. A round without a tool call returns with the
  counter as it was. With cap 1 and a first response that asks for a tool, the
  invocation returns after that one round, whatever the next response asks
  for.
\<close>

theorem iteration_cap:
  assumes "after_rounds env cfg k st0 = Some st" and "se_i st < max_iterations cfg"
  shows "se_i st = se_i st0 + int k \<and> se_model_calls st = se_model_calls st0 + k
       \<and> (round env cfg st = ToolCalled st' \<and> se_i st + 1 = max_iterations cfg \<longrightarrow>
            agent_loop env cfg st0 =
              Inr (st'\<lparr>se_i := max_iterations cfg,
                       se_stdout := se_stdout st' @
                         [max_iterations_warning (py env) (max_iterations cfg)]\<rparr>)
          \<and> se_model_calls st' = se_model_calls st0 + k + 1)
       \<and> (round env cfg st = NoToolCalls st' \<longrightarrow>
            agent_loop env cfg st0 = Inr st' \<and> se_i st' = se_i st0 + int k)
       \<and> (k = 0 \<and> se_i st0 = 0 \<and> max_iterations cfg = 1 \<and> round env cfg st0 = ToolCalled st' \<longrightarrow>
            agent_loop env cfg st0 =
              Inr (st'\<lparr>se_i := 1,
                       se_stdout := se_stdout st' @ [max_iterations_warning (py env) 1]\<rparr>))"
proof -
  have cnt: "se_i st = se_i st0 + int k \<and> se_model_calls st = se_model_calls st0 + k"
    using assms(1) by (rule after_rounds_counters)
  have loop: "agent_loop env cfg st0 = agent_loop env cfg st"
    using assms(1) by (rule after_rounds_agent_loop)
  have cap: "agent_loop env cfg st0 =
              Inr (st'\<lparr>se_i := max_iterations cfg,
                       se_stdout := se_stdout st' @
                         [max_iterations_warning (py env) (max_iterations cfg)]\<rparr>)
          \<and> se_model_calls st' = se_model_calls st0 + k + 1"
    if r: "round env cfg st = ToolCalled st'" and e: "se_i st + 1 = max_iterations cfg"
  proof
    have "agent_loop env cfg st = agent_loop env cfg (counted env cfg st st')"
      using r assms(2) by (rule agent_loop_tool_called)
    also have "\<dots> = Inr (counted env cfg st st')"
      using e by (intro agent_loop_at_cap) (simp add: counted_def)
    finally show "agent_loop env cfg st0 =
              Inr (st'\<lparr>se_i := max_iterations cfg,
                       se_stdout := se_stdout st' @
                         [max_iterations_warning (py env) (max_iterations cfg)]\<rparr>)"
      using loop e by (simp add: counted_def)
    show "se_model_calls st' = se_model_calls st0 + k + 1"
      using r cnt round_counters by fastforce
  qed
  have none: "agent_loop env cfg st0 = Inr st' \<and> se_i st' = se_i st0 + int k"
    if r: "round env cfg st = NoToolCalls st'"
  proof
    have "agent_loop env cfg st = Inr st'"
      using r assms(2) by (subst agent_loop.simps) simp
    then show "agent_loop env cfg st0 = Inr st'"
      using loop by simp
    show "se_i st' = se_i st0 + int k"
      using r cnt round_counters by fastforce
  qed
  have one: "agent_loop env cfg st0 =
              Inr (st'\<lparr>se_i := 1,
                       se_stdout := se_stdout st' @ [max_iterations_warning (py env) 1]\<rparr>)"
    if h: "k = 0 \<and> se_i st0 = 0 \<and> max_iterations cfg = 1 \<and> round env cfg st0 = ToolCalled st'"
  proof -
    from h assms(1) have "st = st0" by simp
    with h cap show ?thesis by simp
  qed
  from cnt cap none one show ?thesis by blast
qed

theorem iteration_cap_witness:
  "round sample_env (sample_cfg 1) (sample_st sample_first_response) = ToolCalled sample_st1
   \<and> sample_run 1 =
       Inr (sample_st1\<lparr>se_i := 1,
              se_stdout := [''WARNING:Max iterations reached: 1.\<newline>Exiting loop.'']\<rparr>)
   \<and> se_final_text sample_st1 = [''Searching.'', ''[Calling tool search]'']
   \<and> se_model_calls sample_st1 = 2"
proof -
  have z: "after_rounds sample_env (sample_cfg 1) 0 (sample_st sample_first_response)
           = Some (sample_st sample_first_response)"
    by simp
  have c: "se_i (sample_st sample_first_response) < max_iterations (sample_cfg 1)"
    by (simp add: sample_st_def sample_cfg_def)
  have e: "se_i (sample_st sample_first_response) + 1 = max_iterations (sample_cfg 1)"
    by (simp add: sample_st_def sample_cfg_def)
  from iteration_cap [OF z c, of sample_st1] sample_first_round [of 1] e
  have "agent_loop sample_env (sample_cfg 1) (sample_st sample_first_response)
     = Inr (sample_st1\<lparr>se_i := max_iterations (sample_cfg 1),
              se_stdout := se_stdout sample_st1 @
                [max_iterations_warning (py sample_env) (max_iterations (sample_cfg 1))]\<rparr>)"
    by blast
  then have "sample_run 1 =
       Inr (sample_st1\<lparr>se_i := 1,
              se_stdout := [''WARNING:Max iterations reached: 1.\<newline>Exiting loop.'']\<rparr>)"
    by (simp add: sample_run_is_loop sample_cfg_def sample_env_def sample_lib_def sample_st1_def
          max_iterations_warning_def)
  then show ?thesis
    using sample_first_round [of 1] by (simp add: sample_st1_def)
qed

subsection \<open>Writes to the call-result cache\<close>

text \<open>
  Claim C7 says that an entry, once written, is never overwritten by a later
  write under the same call id. Both loops store with a plain dict assignment.
  In the sample run the model issues \<open>call_1\<close> twice: when the invocation is
  cut after one round the entry of \<open>call_1\<close> holds the first result, after two
  rounds of the same invocation it holds the second.
\<close>

theorem cache_entry_overwritten:
  "cached_after (sample_run 1) ''call_1'' = Some (''search'', ''first'')
   \<and> cached_after (sample_run 2) ''call_1'' = Some (''search'', ''second'')"
  by (simp add: sample_run_is_loop sample_step_defs step_defs agent_loop.simps)

text \<open>
  Claim C7, amended. In either loop the write that follows a tool call under
  call id \<open>c\<close> leaves the entry of every other call id as it was, so no entry
  is overwritten as long as call ids are not reissued; under \<open>c\<close> itself a
  result that is stored replaces whatever was there (the last write wins).
\<close>

theorem cache_write_is_local:
  "(process_tool_call env (se_model_calls st) n a c (ToolUse n a c) acc
      (se_messages st) (se_state st) ft (user_id cfg) (provider cfg) = Inr (um, rc, ft', s')
    \<longrightarrow> (\<forall>st'. dispatch env cfg st acc ft n a c = ToolCalled st' \<longrightarrow>
           (\<forall>k. k \<noteq> c \<longrightarrow> cached (se_state st') k = cached s' k)
         \<and> (\<forall>r. rc = Some r \<and> r \<noteq> [] \<and> n \<noteq> ''get_previous_step_result''
                  \<and> n \<noteq> ''reference_tool_output'' \<longrightarrow> cached (se_state st') c = Some (n, r))))
   \<and> (host_process_tool_call henv (h_model_calls hst) (h_self hcfg) n a c (ToolUse n a c) hacc
        (h_messages hst) (h_tool_results_context hst) hft (h_stdout hst) = Inr (hum, hrc, hft', hout)
    \<longrightarrow> (\<forall>hst'. host_dispatch henv hcfg hst hacc hft n a c = ToolCalled hst' \<longrightarrow>
           (\<forall>k. k \<noteq> c \<longrightarrow> h_tool_results_context hst' k = h_tool_results_context hst k)
         \<and> (\<forall>r. hrc = Some r \<and> truthy_result r \<longrightarrow> h_tool_results_context hst' c = Some r)))"
proof (intro conjI impI allI)
  fix st'
  assume p: "process_tool_call env (se_model_calls st) n a c (ToolUse n a c) acc
      (se_messages st) (se_state st) ft (user_id cfg) (provider cfg) = Inr (um, rc, ft', s')"
    and d: "dispatch env cfg st acc ft n a c = ToolCalled st'"
  from p d have m: "memoize n c rc s' = Inr (se_state st')"
    using dispatch_tool_called by blast
  show "cached (se_state st') k = cached s' k" if "k \<noteq> c" for k
    using m that by (rule memoize_other_keys)
  show "cached (se_state st') c = Some (n, r)"
    if "rc = Some r \<and> r \<noteq> [] \<and> n \<noteq> ''get_previous_step_result'' \<and> n \<noteq> ''reference_tool_output''"
    for r
    using m that memoize_written by blast
next
  fix hst'
  assume p: "host_process_tool_call henv (h_model_calls hst) (h_self hcfg) n a c (ToolUse n a c) hacc
        (h_messages hst) (h_tool_results_context hst) hft (h_stdout hst) = Inr (hum, hrc, hft', hout)"
    and d: "host_dispatch henv hcfg hst hacc hft n a c = ToolCalled hst'"
  show "h_tool_results_context hst' k = h_tool_results_context hst k" if "k \<noteq> c" for k
    using d that by (auto simp: host_dispatch_def split: sum.splits option.splits)
  show "h_tool_results_context hst' c = Some r" if "hrc = Some r \<and> truthy_result r" for r
    using p d that by (auto simp: host_dispatch_def split: sum.splits option.splits)
qed

theorem cache_write_is_local_witness:
  "dispatch sample_env (sample_cfg 1) (sample_st sample_first_response)
     [Text ''Searching.''] [''Searching.''] ''search'' (JObj []) ''call_1'' = ToolCalled sample_st1
   \<and> cached (se_state sample_st1) ''call_1'' = Some (''search'', ''first'')
   \<and> cached (se_state sample_st1) ''call_0'' = cached sample_state ''call_0''
   \<and> host_dispatch sample_host_env sample_host_cfg
       (sample_host_st sample_host_first_response Map.empty)
       [Text ''Let me check.''] [''Let me check.''] ''search'' (JObj []) ''toolu_01''
     = ToolCalled sample_host_st1
   \<and> h_tool_results_context sample_host_st1 ''toolu_01'' = Some (RContent [TextContent ''3 results''])
   \<and> h_tool_results_context sample_host_st1 ''toolu_00''
     = h_tool_results_context (sample_host_st sample_host_first_response Map.empty) ''toolu_00''"
proof -
  have p: "process_tool_call sample_env (se_model_calls (sample_st sample_first_response))
             ''search'' (JObj []) ''call_1'' (ToolUse ''search'' (JObj []) ''call_1'')
             [Text ''Searching.''] (se_messages (sample_st sample_first_response))
             (se_state (sample_st sample_first_response)) [''Searching.'']
             (user_id (sample_cfg 1)) (provider (sample_cfg 1))
           = Inr (se_messages sample_st1, Some ''first'', se_final_text sample_st1, sample_state)"
    by (simp add: sample_step_defs)
  have d: "dispatch sample_env (sample_cfg 1) (sample_st sample_first_response)
             [Text ''Searching.''] [''Searching.''] ''search'' (JObj []) ''call_1''
           = ToolCalled sample_st1"
    by (simp add: sample_step_defs step_defs)
  have hp: "host_process_tool_call sample_host_env
              (h_model_calls (sample_host_st sample_host_first_response Map.empty))
              (h_self sample_host_cfg) ''search'' (JObj []) ''toolu_01''
              (ToolUse ''search'' (JObj []) ''toolu_01'') [Text ''Let me check.'']
              (h_messages (sample_host_st sample_host_first_response Map.empty))
              (h_tool_results_context (sample_host_st sample_host_first_response Map.empty))
              [''Let me check.'']
              (h_stdout (sample_host_st sample_host_first_response Map.empty))
            = Inr (h_messages sample_host_st1, Some (RContent [TextContent ''3 results'']),
                   h_final_text sample_host_st1, h_stdout sample_host_st1)"
    by (simp add: sample_host_defs host_defs)
  have hd: "host_dispatch sample_host_env sample_host_cfg
              (sample_host_st sample_host_first_response Map.empty)
              [Text ''Let me check.''] [''Let me check.''] ''search'' (JObj []) ''toolu_01''
            = ToolCalled sample_host_st1"
    by (simp add: sample_host_defs host_defs)
  from cache_write_is_local [THEN conjunct1, rule_format, OF p d]
  have "cached (se_state sample_st1) ''call_1'' = Some (''search'', ''first'')"
    and "cached (se_state sample_st1) ''call_0'' = cached sample_state ''call_0''"
    by simp_all
  moreover from cache_write_is_local [THEN conjunct2, rule_format, OF hp hd]
  have "h_tool_results_context sample_host_st1 ''toolu_01'' = Some (RContent [TextContent ''3 results''])"
    and "h_tool_results_context sample_host_st1 ''toolu_00''
         = h_tool_results_context (sample_host_st sample_host_first_response Map.empty) ''toolu_00''"
    by simp_all
  ultimately show ?thesis
    using d hd by simp
qed

text \<open>
  Claim C8. In the step executor the driver's write is the only change made to
  the state the tool processor hands back: after a \<open>reference_tool_output\<close> or
  \<open>get_previous_step_result\<close> call the state is exactly that state; so it is
  when the round returns on the insufficiency signal; and whenever the state
  does differ, the tool is neither of the two and the difference is the one
  entry for this call id. In the host a \<open>reference_tool_output\<close> call leaves the
  cache as it was.
\<close>

theorem control_results_not_memoized:
  "(process_tool_call env (se_model_calls st) n a c (ToolUse n a c) acc
      (se_messages st) (se_state st) ft (user_id cfg) (provider cfg) = Inr (um, rc, ft', s')
    \<longrightarrow> (\<forall>st'. (n = ''reference_tool_output'' \<or> n = ''get_previous_step_result'')
                \<and> dispatch env cfg st acc ft n a c = ToolCalled st' \<longrightarrow> se_state st' = s')
      \<and> (\<forall>st'. dispatch env cfg st acc ft n a c = Returned st' \<longrightarrow> se_state st' = s')
      \<and> (\<forall>st'. dispatch env cfg st acc ft n a c = ToolCalled st' \<and> se_state st' \<noteq> s'
            \<longrightarrow> n \<noteq> ''reference_tool_output'' \<and> n \<noteq> ''get_previous_step_result''
              \<and> (\<exists>r cache. rc = Some r \<and> r \<noteq> [] \<and> \<not> startswith r INSUFFICIENT_CONTEXT
                   \<and> tool_results s' = Some cache
                   \<and> se_state st' = s'\<lparr>tool_results := Some (cache(c \<mapsto> (n, r)))\<rparr>)))
   \<and> (\<forall>hst'. host_dispatch henv hcfg hst hacc hft ''reference_tool_output'' a c = ToolCalled hst'
        \<longrightarrow> h_tool_results_context hst' = h_tool_results_context hst)"
proof (intro conjI impI allI)
  fix st'
  assume p: "process_tool_call env (se_model_calls st) n a c (ToolUse n a c) acc
      (se_messages st) (se_state st) ft (user_id cfg) (provider cfg) = Inr (um, rc, ft', s')"
    and d: "(n = ''reference_tool_output'' \<or> n = ''get_previous_step_result'')
           \<and> dispatch env cfg st acc ft n a c = ToolCalled st'"
  from p d have "memoize n c rc s' = Inr (se_state st')"
    using dispatch_tool_called by blast
  moreover from d have "memoize n c rc s' = Inr s'"
    using memoize_control by blast
  ultimately show "se_state st' = s'" by simp
next
  fix st'
  assume "process_tool_call env (se_model_calls st) n a c (ToolUse n a c) acc
      (se_messages st) (se_state st) ft (user_id cfg) (provider cfg) = Inr (um, rc, ft', s')"
    and "dispatch env cfg st acc ft n a c = Returned st'"
  then show "se_state st' = s'" by (rule dispatch_returned)
next
  fix st'
  assume p: "process_tool_call env (se_model_calls st) n a c (ToolUse n a c) acc
      (se_messages st) (se_state st) ft (user_id cfg) (provider cfg) = Inr (um, rc, ft', s')"
    and d: "dispatch env cfg st acc ft n a c = ToolCalled st' \<and> se_state st' \<noteq> s'"
  from p d have m: "memoize n c rc s' = Inr (se_state st')"
    and ns: "\<not> (\<exists>r. rc = Some r \<and> r \<noteq> [] \<and> startswith r INSUFFICIENT_CONTEXT)"
    using dispatch_tool_called by blast+
  from m d show "n \<noteq> ''reference_tool_output''"
    using memoize_control [of n c rc s'] by auto
  from m d show "n \<noteq> ''get_previous_step_result''"
    using memoize_control [of n c rc s'] by auto
  from m d ns show "\<exists>r cache. rc = Some r \<and> r \<noteq> [] \<and> \<not> startswith r INSUFFICIENT_CONTEXT
                 \<and> tool_results s' = Some cache
                 \<and> se_state st' = s'\<lparr>tool_results := Some (cache(c \<mapsto> (n, r)))\<rparr>"
    by (auto simp: memoize_def split: option.splits if_splits)
next
  fix hst'
  assume "host_dispatch henv hcfg hst hacc hft ''reference_tool_output'' a c = ToolCalled hst'"
  then show "h_tool_results_context hst' = h_tool_results_context hst"
    by (auto simp: host_dispatch_def host_process_tool_call_def handle_reference_tool_def
             split: sum.splits option.splits)
qed

theorem control_results_not_memoized_witness:
  "dispatch sample_env (sample_cfg 1) sample_reference_st [] []
     ''reference_tool_output'' (JObj [(''tool_id'', JStr ''call_1'')]) ''call_5''
   = ToolCalled sample_reference_st1
   \<and> se_state sample_reference_st1 = se_state sample_reference_st
   \<and> host_dispatch sample_host_env sample_host_cfg
       (sample_host_st [ToolUse ''reference_tool_output'' (sample_reference ''toolu_03'' []) ''toolu_09'']
          sample_context)
       [] [] ''reference_tool_output'' (sample_reference ''toolu_03'' []) ''toolu_09''
     = ToolCalled sample_host_reference_st1
   \<and> h_tool_results_context sample_host_reference_st1 = sample_context"
proof -
  have p: "process_tool_call sample_env (se_model_calls sample_reference_st)
             ''reference_tool_output'' (JObj [(''tool_id'', JStr ''call_1'')]) ''call_5''
             (ToolUse ''reference_tool_output'' (JObj [(''tool_id'', JStr ''call_1'')]) ''call_5'')
             [] (se_messages sample_reference_st) (se_state sample_reference_st) []
             (user_id (sample_cfg 1)) (provider (sample_cfg 1))
           = Inr (se_messages sample_reference_st1, Some ''first'',
                  se_final_text sample_reference_st1, se_state sample_reference_st)"
    by (simp add: sample_step_defs sample_reference_st_def sample_reference_st1_def)
  have d: "dispatch sample_env (sample_cfg 1) sample_reference_st [] []
             ''reference_tool_output'' (JObj [(''tool_id'', JStr ''call_1'')]) ''call_5''
           = ToolCalled sample_reference_st1"
    by (simp add: sample_step_defs step_defs sample_reference_st_def sample_reference_st1_def)
  have hd: "host_dispatch sample_host_env sample_host_cfg
              (sample_host_st
                 [ToolUse ''reference_tool_output'' (sample_reference ''toolu_03'' []) ''toolu_09'']
                 sample_context)
              [] [] ''reference_tool_output'' (sample_reference ''toolu_03'' []) ''toolu_09''
            = ToolCalled sample_host_reference_st1"
    by (simp add: sample_host_defs host_defs sample_host_reference_st1_def)
  from control_results_not_memoized [THEN conjunct1, rule_format, OF p, THEN conjunct1, rule_format,
      of sample_reference_st1] d
  have "se_state sample_reference_st1 = se_state sample_reference_st"
    by simp
  moreover from control_results_not_memoized [THEN conjunct2, rule_format, OF hd]
  have "h_tool_results_context sample_host_reference_st1 = sample_context"
    by (simp add: sample_host_st_def)
  ultimately show ?thesis
    using d hd by simp
qed

subsection \<open>Unknown tools\<close>

text \<open>
  Claim C9. In the host, a tool name that is neither \<open>reference_tool_output\<close>
  nor \<open>access_resource\<close> and is absent from the tool-to-client map raises
  nothing: the tool result is \<^verbatim>\<open>Error: Tool '<name>' is not available.\<close>, the
  output buffer and the console get
  \<^verbatim>\<open>Error: Tool '<name>' not found in any client\<close>, and, once the provider
  answers the next model call, the round ends as a completed tool call and the
  loop goes on with the next round.
\<close>

theorem unknown_tool_is_reported:
  assumes "n \<noteq> ''reference_tool_output''" and "n \<noteq> ''access_resource''"
      and "tool_to_client_map (h_self cfg) n = None"
  shows "host_process_tool_call env k (h_self cfg) n a c content acc msgs ctx ft out =
           Inr (msgs @ [Message Assistant (Blocks (acc @ [content])),
                        Message User (ToolResult c (RStr (tool_not_available_message n)))],
                Some (RStr (tool_not_available_message n)),
                ft @ [tool_not_found_message n],
                out @ [tool_not_found_message n])
       \<and> (h_response st = pre @ ToolUse n a c # rest \<and> (\<forall>b \<in> set pre. \<not> is_ToolUse b)
          \<and> messages_create env (h_model_calls st)
               (h_messages st @ [Message Assistant (Blocks (text_blocks pre @ [ToolUse n a c])),
                  Message User (ToolResult c (RStr (tool_not_available_message n)))])
               (h_available_tools cfg) (h_current_system_prompt cfg) = Inr r
          \<longrightarrow> (\<exists>st'. host_round env cfg st = ToolCalled st'
                 \<and> h_response st' = r
                 \<and> h_messages st' =
                     h_messages st @ [Message Assistant (Blocks (text_blocks pre @ [ToolUse n a c])),
                       Message User (ToolResult c (RStr (tool_not_available_message n)))]
                 \<and> h_final_text st' = h_final_text st @ texts pre @ [tool_not_found_message n]
                 \<and> h_model_calls st' = h_model_calls st + 1
                 \<and> host_agent_loop env cfg st = host_agent_loop env cfg st'))"
proof (intro conjI impI)
  show p: "host_process_tool_call env k (h_self cfg) n a c content acc msgs ctx ft out =
           Inr (msgs @ [Message Assistant (Blocks (acc @ [content])),
                        Message User (ToolResult c (RStr (tool_not_available_message n)))],
                Some (RStr (tool_not_available_message n)),
                ft @ [tool_not_found_message n],
                out @ [tool_not_found_message n])"
    for k content acc msgs ctx ft out
    using assms by (simp add: host_process_tool_call_def handle_standard_tool_def)
  assume h: "h_response st = pre @ ToolUse n a c # rest \<and> (\<forall>b \<in> set pre. \<not> is_ToolUse b)
          \<and> messages_create env (h_model_calls st)
               (h_messages st @ [Message Assistant (Blocks (text_blocks pre @ [ToolUse n a c])),
                  Message User (ToolResult c (RStr (tool_not_available_message n)))])
               (h_available_tools cfg) (h_current_system_prompt cfg) = Inr r"
  then have "host_round env cfg st
              = host_dispatch env cfg st (text_blocks pre) (h_final_text st @ texts pre) n a c"
    using host_round_first_tool_use by blast
  with h obtain st' where r: "host_round env cfg st = ToolCalled st'"
    and s: "h_response st' = r"
       "h_messages st' =
          h_messages st @ [Message Assistant (Blocks (text_blocks pre @ [ToolUse n a c])),
            Message User (ToolResult c (RStr (tool_not_available_message n)))]"
       "h_final_text st' = h_final_text st @ texts pre @ [tool_not_found_message n]"
       "h_model_calls st' = h_model_calls st + 1"
    by (simp add: host_dispatch_def p)
  have "host_agent_loop env cfg st = host_agent_loop env cfg st'"
    by (subst host_agent_loop.simps) (simp add: r)
  with r s show "\<exists>st'. host_round env cfg st = ToolCalled st'
                 \<and> h_response st' = r
                 \<and> h_messages st' =
                     h_messages st @ [Message Assistant (Blocks (text_blocks pre @ [ToolUse n a c])),
                       Message User (ToolResult c (RStr (tool_not_available_message n)))]
                 \<and> h_final_text st' = h_final_text st @ texts pre @ [tool_not_found_message n]
                 \<and> h_model_calls st' = h_model_calls st + 1
                 \<and> host_agent_loop env cfg st = host_agent_loop env cfg st'"
    by blast
qed

theorem unknown_tool_is_reported_witness:
  "map_option h_final_text
     (state_after (host_round sample_host_env sample_host_cfg
        (sample_host_st [ToolUse ''lookup_weather'' (JObj []) ''toolu_03''] Map.empty)))
   = Some [''Error: Tool 'lookup_weather' not found in any client'']
   \<and> map_option h_messages
     (state_after (host_round sample_host_env sample_host_cfg
        (sample_host_st [ToolUse ''lookup_weather'' (JObj []) ''toolu_03''] Map.empty)))
   = Some [Message User (Str ''Find x''),
           Message Assistant (Blocks [ToolUse ''lookup_weather'' (JObj []) ''toolu_03'']),
           Message User (ToolResult ''toolu_03''
             (RStr ''Error: Tool 'lookup_weather' is not available.''))]
   \<and> map_option h_model_calls
     (state_after (host_round sample_host_env sample_host_cfg
        (sample_host_st [ToolUse ''lookup_weather'' (JObj []) ''toolu_03''] Map.empty)))
   = Some 2"
  using unknown_tool_is_reported [where n = "''lookup_weather''" and cfg = sample_host_cfg
      and env = sample_host_env and a = "JObj []" and c = "''toolu_03''" and pre = "[]"
      and rest = "[]" and r = "[ToolUse ''lookup_weather'' (JObj []) ''toolu_03'']"
      and st = "sample_host_st [ToolUse ''lookup_weather'' (JObj []) ''toolu_03''] Map.empty"
      and k = 1 and content = "ToolUse ''lookup_weather'' (JObj []) ''toolu_03''" and acc = "[]"
      and msgs = "[]" and ctx = Map.empty and ft = "[]" and out = "[]"]
  by (auto simp add: sample_host_defs state_after_def tool_not_found_message_def
        tool_not_available_message_def)

end
